theory Spec2Isabelle
  imports Main
begin

section \<open>JavaScript strings\<close>

text \<open>
  A JavaScript string is a sequence of UTF-16 code units. The unit table of the converter has
  keys outside ASCII (the micro sign, the Greek letter mu, superscript digits, the degree sign),
  so a string is modelled as the list of its code units, each an integer. \<open>js\<close> turns an
  ASCII literal into such a list. The backslash, which opens every D-SI unit, is code unit 92.
\<close>

type_synonym ustring = "int list"

abbreviation js :: "string \<Rightarrow> ustring" where
  "js s \<equiv> map of_char s"

text \<open>
  The truthiness of a value that is a string or \<open>undefined\<close>: \<open>None\<close> stands for
  \<open>undefined\<close> (an absent property of an object), and the empty string is falsy as well.
\<close>

definition truthy :: "ustring option \<Rightarrow> bool" where
  "truthy s = (case s of None \<Rightarrow> False | Some t \<Rightarrow> t \<noteq> [])"

text \<open>\<open>s || d\<close> for a string-or-undefined \<open>s\<close> and a string \<open>d\<close>.\<close>

definition or_else :: "ustring option \<Rightarrow> ustring \<Rightarrow> ustring" where
  "or_else s d = (case s of None \<Rightarrow> d | Some t \<Rightarrow> if t = [] then d else t)"

section \<open>Character classes and string helpers\<close>

text \<open>
  The code units that the regular expression class \<open>\s\<close> matches and that
  \<open>String.prototype.trim\<close> removes: the ECMAScript white space and line terminator
  characters.
\<close>

definition is_space :: "int \<Rightarrow> bool" where
  "is_space c = (c \<in> {9, 10, 11, 12, 13, 32, 160, 5760, 8232, 8233, 8239, 8287, 12288, 65279}
                 \<or> (8192 \<le> c \<and> c \<le> 8202))"

definition is_digit :: "int \<Rightarrow> bool" where
  "is_digit c = (48 \<le> c \<and> c \<le> 57)"

definition trim :: "ustring \<Rightarrow> ustring" where
  "trim s = rev (dropWhile is_space (rev (dropWhile is_space s)))"

text \<open>
  \<open>String.prototype.toLowerCase\<close>, per code unit. The mapping is written out for the
  code units whose lower case is, or contains, an ASCII character or a character of a key of
  the unit table: \<open>A\<close> to \<open>Z\<close>, the Kelvin sign U+212A (lower case \<open>k\<close>), the capital
  I with dot above U+0130 (lower case \<open>i\<close> followed by U+0307) and the Greek capital mu
  U+039C (lower case U+03BC). Every other code unit is kept as it is: its lower case contains
  none of these characters, so that no comparison made by the program against an ASCII
  literal or a table key depends on it.
\<close>

definition lower_unit :: "int \<Rightarrow> int list" where
  "lower_unit c =
     (if 65 \<le> c \<and> c \<le> 90 then [c + 32]
      else if c = 304 then [105, 775]
      else if c = 8490 then [107]
      else if c = 924 then [956]
      else [c])"

definition toLowerCase :: "ustring \<Rightarrow> ustring" where
  "toLowerCase s = concat (map lower_unit s)"

text \<open>\<open>s.replace(/c/g, r)\<close> for a single code unit \<open>c\<close>.\<close>

definition replace_unit :: "int \<Rightarrow> ustring \<Rightarrow> ustring \<Rightarrow> ustring" where
  "replace_unit c r s = concat (map (\<lambda>x. if x = c then r else [x]) s)"

text \<open>\<open>s.replace(/ab/g, r)\<close> for two code units \<open>a\<close>, \<open>b\<close>, scanning from the left.\<close>

fun replace_pair :: "int \<Rightarrow> int \<Rightarrow> ustring \<Rightarrow> ustring \<Rightarrow> ustring" where
  "replace_pair a b r (x # y # s) =
     (if x = a \<and> y = b then r @ replace_pair a b r s else x # replace_pair a b r (y # s))"
| "replace_pair a b r s = s"

text \<open>The decimal digits of a non-negative integer, most significant first, as numbers and as text.\<close>

function dec_digits :: "int \<Rightarrow> int list" where
  "dec_digits n = (if n < 10 then [n] else dec_digits (n div 10) @ [n mod 10])"
  by pat_completeness auto
termination
  by (relation "measure nat") auto

declare dec_digits.simps [simp del]

definition show_int :: "int \<Rightarrow> ustring" where
  "show_int n = map (\<lambda>d. 48 + d) (dec_digits n)"

definition digits_value :: "int list \<Rightarrow> int" where
  "digits_value ds = foldl (\<lambda>a d. 10 * a + d) 0 ds"

section \<open>Numbers of the unit converter\<close>

text \<open>
  The converter parses a decimal text, multiplies by a decimal factor of the table and prints
  the product with six significant digits. These numbers are modelled as exact decimals
  \<open>m * 10 ^ e\<close>, a pair \<open>(m, e)\<close>: the binary rounding of IEEE doubles, overflow to
  \<open>Infinity\<close> and underflow are not modelled, so the model agrees with the program away from
  rounding ties and inside the range of doubles.
\<close>

type_synonym decimal = "int \<times> int"

datatype jsnum = NaN | Num decimal

definition dec_is_one :: "decimal \<Rightarrow> bool" where
  "dec_is_one d = (case d of (m, e) \<Rightarrow>
     if 0 \<le> e then m * 10 ^ nat e = 1 else m = 10 ^ nat (- e))"

definition scale :: "jsnum \<Rightarrow> decimal \<Rightarrow> jsnum" where
  "scale x f = (case x of NaN \<Rightarrow> NaN | Num (m, e) \<Rightarrow> Num (m * fst f, e + snd f))"

text \<open>
  \<open>parseFloat\<close>: the longest prefix that is a decimal literal (sign, digits, fraction,
  exponent); \<open>NaN\<close> when there is no digit before the exponent. An exponent marker without
  digits is not part of the literal. The literal \<open>Infinity\<close> is not modelled: the converter
  applies \<open>parseFloat\<close> to a text over \<open>0-9 . e E -\<close> only.
\<close>

definition parse_exponent :: "ustring \<Rightarrow> int" where
  "parse_exponent s =
     (case s of
        [] \<Rightarrow> 0
      | c # r \<Rightarrow>
          if c = 101 \<or> c = 69 then
            (let neg = (r \<noteq> [] \<and> hd r = 45);
                 r1 = (if r \<noteq> [] \<and> (hd r = 45 \<or> hd r = 43) then tl r else r);
                 ds = takeWhile is_digit r1
             in if ds = [] then 0
                else (if neg then - digits_value (map (\<lambda>c. c - 48) ds)
                      else digits_value (map (\<lambda>c. c - 48) ds)))
          else 0)"

definition parseFloat :: "ustring \<Rightarrow> jsnum" where
  "parseFloat s =
     (let s0 = dropWhile is_space s;
          neg = (s0 \<noteq> [] \<and> hd s0 = 45);
          s1 = (if s0 \<noteq> [] \<and> (hd s0 = 45 \<or> hd s0 = 43) then tl s0 else s0);
          ip = takeWhile is_digit s1;
          r1 = dropWhile is_digit s1;
          fp = (if r1 \<noteq> [] \<and> hd r1 = 46 then takeWhile is_digit (tl r1) else []);
          r2 = (if r1 \<noteq> [] \<and> hd r1 = 46 then dropWhile is_digit (tl r1) else r1)
      in if ip = [] \<and> fp = [] then NaN
         else (let m = digits_value (map (\<lambda>c. c - 48) (ip @ fp));
                   e = parse_exponent r2 - int (length fp)
               in Num (if neg then - m else m, e)))"

text \<open>
  \<open>Number.prototype.toString\<close> for a positive number with significant digits \<open>ds\<close> (no
  trailing zero) whose decimal point stands after \<open>n\<close> digits.
\<close>

definition layout :: "int list \<Rightarrow> int \<Rightarrow> ustring" where
  "layout ds n =
     (let k = int (length ds); cs = map (\<lambda>d. 48 + d) ds
      in if k \<le> n \<and> n \<le> 21 then cs @ replicate (nat (n - k)) 48
         else if 0 < n \<and> n \<le> 21 then take (nat n) cs @ [46] @ drop (nat n) cs
         else if - 6 < n \<and> n \<le> 0 then [48, 46] @ replicate (nat (- n)) 48 @ cs
         else (let ex = show_int \<bar>n - 1\<bar>; sg = (if n - 1 < 0 then 45 else 43)
               in if k = 1 then cs @ [101, sg] @ ex
                  else [hd cs, 46] @ tl cs @ [101, sg] @ ex))"

text \<open>
  \<open>Number(x.toPrecision(6)).toString()\<close>: round to six significant digits (half away from
  zero), drop the trailing zeros, print.
\<close>

definition round6 :: "int \<Rightarrow> int list \<times> int" where
  "round6 a =
     (let ds = dec_digits a; k = length ds
      in if k \<le> 6 then (ds, 0)
         else (let n = digits_value (take 6 ds);
                   n' = (if 5 \<le> ds ! 6 then n + 1 else n)
               in (dec_digits n', int k - 6)))"

definition format6 :: "jsnum \<Rightarrow> ustring" where
  "format6 x =
     (case x of
        NaN \<Rightarrow> js ''NaN''
      | Num (m, e) \<Rightarrow>
          if m = 0 then js ''0''
          else (let (ds, sh) = round6 \<bar>m\<bar>;
                    zs = length (takeWhile (\<lambda>d. d = 0) (rev ds));
                    ds' = take (length ds - zs) ds;
                    n = int (length ds) + e + sh
                in (if m < 0 then [45] else []) @ layout ds' n))"

section \<open>The unit converter\<close>

text \<open>
  The repository holds the module twice. src/unnamed/part_002 is the converter that README.md
  describes under the name utils/unitConverter.ts (the percent sign maps to the percent unit
  with factor 1, a unit that starts with a backslash passes through); the file
  src/utils/unitConverter.ts is an older copy of it. Both are modelled: \<open>UNIT_MAP\<close> and
  \<open>convertToDSI\<close> are the older copy, \<open>UNIT_MAP_rev\<close> and \<open>convertToDSI_rev\<close> the
  converter of part_002. The record and the helper functions are the same in both.
\<close>

record DsiConversion =
  conv_dsiUnit :: ustring
  conv_factor :: decimal

text \<open>A D-SI unit is a sequence of names, each opened by a backslash.\<close>

definition dsi :: "string list \<Rightarrow> ustring" where
  "dsi parts = concat (map (\<lambda>p. 92 # js p) parts)"

definition UNIT_MAP :: "(ustring \<times> DsiConversion) list" where
  "UNIT_MAP = [
    (js ''%'', \<lparr>conv_dsiUnit = dsi [''one''], conv_factor = (1, -2)\<rparr>),
    (js ''percent'', \<lparr>conv_dsiUnit = dsi [''one''], conv_factor = (1, -2)\<rparr>),
    (js ''ppm'', \<lparr>conv_dsiUnit = dsi [''one''], conv_factor = (1, -6)\<rparr>),
    (js ''ppb'', \<lparr>conv_dsiUnit = dsi [''one''], conv_factor = (1, -9)\<rparr>),
    (js ''mg/kg'', \<lparr>conv_dsiUnit = dsi [''milli'', ''gram'', ''kilogram'', ''tothe{-1}''], conv_factor = (1, 0)\<rparr>),
    (js ''mgkg-1'', \<lparr>conv_dsiUnit = dsi [''milli'', ''gram'', ''kilogram'', ''tothe{-1}''], conv_factor = (1, 0)\<rparr>),
    (js ''mgkg'' @ [8315] @ [185], \<lparr>conv_dsiUnit = dsi [''milli'', ''gram'', ''kilogram'', ''tothe{-1}''], conv_factor = (1, 0)\<rparr>),
    ([181] @ js ''g/kg'', \<lparr>conv_dsiUnit = dsi [''micro'', ''gram'', ''kilogram'', ''tothe{-1}''], conv_factor = (1, 0)\<rparr>),
    (js ''ug/kg'', \<lparr>conv_dsiUnit = dsi [''micro'', ''gram'', ''kilogram'', ''tothe{-1}''], conv_factor = (1, 0)\<rparr>),
    ([956] @ js ''g/kg'', \<lparr>conv_dsiUnit = dsi [''micro'', ''gram'', ''kilogram'', ''tothe{-1}''], conv_factor = (1, 0)\<rparr>),
    ([181] @ js ''gkg-1'', \<lparr>conv_dsiUnit = dsi [''micro'', ''gram'', ''kilogram'', ''tothe{-1}''], conv_factor = (1, 0)\<rparr>),
    (js ''ugkg-1'', \<lparr>conv_dsiUnit = dsi [''micro'', ''gram'', ''kilogram'', ''tothe{-1}''], conv_factor = (1, 0)\<rparr>),
    ([181] @ js ''gkg'' @ [8315] @ [185], \<lparr>conv_dsiUnit = dsi [''micro'', ''gram'', ''kilogram'', ''tothe{-1}''], conv_factor = (1, 0)\<rparr>),
    (js ''g/kg'', \<lparr>conv_dsiUnit = dsi [''gram'', ''kilogram'', ''tothe{-1}''], conv_factor = (1, 0)\<rparr>),
    (js ''gkg-1'', \<lparr>conv_dsiUnit = dsi [''gram'', ''kilogram'', ''tothe{-1}''], conv_factor = (1, 0)\<rparr>),
    (js ''gkg'' @ [8315] @ [185], \<lparr>conv_dsiUnit = dsi [''gram'', ''kilogram'', ''tothe{-1}''], conv_factor = (1, 0)\<rparr>),
    (js ''mg/g'', \<lparr>conv_dsiUnit = dsi [''milli'', ''gram'', ''gram'', ''tothe{-1}''], conv_factor = (1, 0)\<rparr>),
    (js ''mgg-1'', \<lparr>conv_dsiUnit = dsi [''milli'', ''gram'', ''gram'', ''tothe{-1}''], conv_factor = (1, 0)\<rparr>),
    (js ''ug/g'', \<lparr>conv_dsiUnit = dsi [''micro'', ''gram'', ''gram'', ''tothe{-1}''], conv_factor = (1, 0)\<rparr>),
    ([181] @ js ''g/g'', \<lparr>conv_dsiUnit = dsi [''micro'', ''gram'', ''gram'', ''tothe{-1}''], conv_factor = (1, 0)\<rparr>),
    ([956] @ js ''g/g'', \<lparr>conv_dsiUnit = dsi [''micro'', ''gram'', ''gram'', ''tothe{-1}''], conv_factor = (1, 0)\<rparr>),
    (js ''g/100g'', \<lparr>conv_dsiUnit = dsi [''gram'', ''hecto'', ''gram'', ''tothe{-1}''], conv_factor = (1, 0)\<rparr>),
    (js ''m2/g'', \<lparr>conv_dsiUnit = dsi [''metre'', ''tothe{2}'', ''gram'', ''tothe{-1}''], conv_factor = (1, 0)\<rparr>),
    (js ''m'' @ [178] @ js ''/g'', \<lparr>conv_dsiUnit = dsi [''metre'', ''tothe{2}'', ''gram'', ''tothe{-1}''], conv_factor = (1, 0)\<rparr>),
    (js ''cm2/g'', \<lparr>conv_dsiUnit = dsi [''centi'', ''metre'', ''tothe{2}'', ''gram'', ''tothe{-1}''], conv_factor = (1, 0)\<rparr>),
    (js ''cm'' @ [178] @ js ''/g'', \<lparr>conv_dsiUnit = dsi [''centi'', ''metre'', ''tothe{2}'', ''gram'', ''tothe{-1}''], conv_factor = (1, 0)\<rparr>),
    (js ''mg'', \<lparr>conv_dsiUnit = dsi [''milli'', ''gram''], conv_factor = (1, -6)\<rparr>),
    (js ''g'', \<lparr>conv_dsiUnit = dsi [''gram''], conv_factor = (1, -3)\<rparr>),
    (js ''kg'', \<lparr>conv_dsiUnit = dsi [''kilogram''], conv_factor = (1, 0)\<rparr>),
    (js ''ug'', \<lparr>conv_dsiUnit = dsi [''micro'', ''gram''], conv_factor = (1, -9)\<rparr>),
    ([181] @ js ''g'', \<lparr>conv_dsiUnit = dsi [''micro'', ''gram''], conv_factor = (1, -9)\<rparr>),
    ([956] @ js ''g'', \<lparr>conv_dsiUnit = dsi [''micro'', ''gram''], conv_factor = (1, -9)\<rparr>),
    (js ''lb'', \<lparr>conv_dsiUnit = dsi [''kilogram''], conv_factor = (45359237, -8)\<rparr>),
    (js ''oz'', \<lparr>conv_dsiUnit = dsi [''kilogram''], conv_factor = (2834959, -8)\<rparr>),
    (js ''t'', \<lparr>conv_dsiUnit = dsi [''tonne''], conv_factor = (1000, 0)\<rparr>),
    (js ''nm'', \<lparr>conv_dsiUnit = dsi [''nano'', ''metre''], conv_factor = (1, -9)\<rparr>),
    ([181] @ js ''m'', \<lparr>conv_dsiUnit = dsi [''micro'', ''metre''], conv_factor = (1, -6)\<rparr>),
    ([956] @ js ''m'', \<lparr>conv_dsiUnit = dsi [''micro'', ''metre''], conv_factor = (1, -6)\<rparr>),
    (js ''um'', \<lparr>conv_dsiUnit = dsi [''micro'', ''metre''], conv_factor = (1, -6)\<rparr>),
    (js ''mm'', \<lparr>conv_dsiUnit = dsi [''milli'', ''metre''], conv_factor = (1, -3)\<rparr>),
    (js ''cm'', \<lparr>conv_dsiUnit = dsi [''centi'', ''metre''], conv_factor = (1, -2)\<rparr>),
    (js ''m'', \<lparr>conv_dsiUnit = dsi [''metre''], conv_factor = (1, 0)\<rparr>),
    (js ''km'', \<lparr>conv_dsiUnit = dsi [''kilo'', ''metre''], conv_factor = (1000, 0)\<rparr>),
    (js ''inch'', \<lparr>conv_dsiUnit = dsi [''metre''], conv_factor = (254, -4)\<rparr>),
    (js ''in'', \<lparr>conv_dsiUnit = dsi [''metre''], conv_factor = (254, -4)\<rparr>),
    (js ''ft'', \<lparr>conv_dsiUnit = dsi [''metre''], conv_factor = (3048, -4)\<rparr>),
    (js ''mi'', \<lparr>conv_dsiUnit = dsi [''metre''], conv_factor = (1609344, -3)\<rparr>),
    (js ''m2'', \<lparr>conv_dsiUnit = dsi [''metre'', ''tothe{2}''], conv_factor = (1, 0)\<rparr>),
    (js ''m'' @ [178], \<lparr>conv_dsiUnit = dsi [''metre'', ''tothe{2}''], conv_factor = (1, 0)\<rparr>),
    (js ''cm2'', \<lparr>conv_dsiUnit = dsi [''centi'', ''metre'', ''tothe{2}''], conv_factor = (1, -4)\<rparr>),
    (js ''cm'' @ [178], \<lparr>conv_dsiUnit = dsi [''centi'', ''metre'', ''tothe{2}''], conv_factor = (1, -4)\<rparr>),
    (js ''g/cm3'', \<lparr>conv_dsiUnit = dsi [''gram'', ''centi'', ''metre'', ''tothe{-3}''], conv_factor = (1, 0)\<rparr>),
    (js ''g/cm'' @ [179], \<lparr>conv_dsiUnit = dsi [''gram'', ''centi'', ''metre'', ''tothe{-3}''], conv_factor = (1, 0)\<rparr>),
    ([176] @ js ''C'', \<lparr>conv_dsiUnit = dsi [''degreecelsius''], conv_factor = (1, 0)\<rparr>),
    (js ''C'', \<lparr>conv_dsiUnit = dsi [''degreecelsius''], conv_factor = (1, 0)\<rparr>),
    (js ''K'', \<lparr>conv_dsiUnit = dsi [''kelvin''], conv_factor = (1, 0)\<rparr>),
    (js ''h'', \<lparr>conv_dsiUnit = dsi [''hour''], conv_factor = (3600, 0)\<rparr>),
    (js ''min'', \<lparr>conv_dsiUnit = dsi [''minute''], conv_factor = (60, 0)\<rparr>),
    (js ''s'', \<lparr>conv_dsiUnit = dsi [''second''], conv_factor = (1, 0)\<rparr>),
    (js ''L'', \<lparr>conv_dsiUnit = dsi [''litre''], conv_factor = (1, -3)\<rparr>),
    (js ''l'', \<lparr>conv_dsiUnit = dsi [''litre''], conv_factor = (1, -3)\<rparr>),
    (js ''mL'', \<lparr>conv_dsiUnit = dsi [''milli'', ''litre''], conv_factor = (1, -6)\<rparr>),
    (js ''ml'', \<lparr>conv_dsiUnit = dsi [''milli'', ''litre''], conv_factor = (1, -6)\<rparr>),
    (js ''Pa'', \<lparr>conv_dsiUnit = dsi [''pascal''], conv_factor = (1, 0)\<rparr>),
    (js ''bar'', \<lparr>conv_dsiUnit = dsi [''pascal''], conv_factor = (100000, 0)\<rparr>),
    (js ''mbar'', \<lparr>conv_dsiUnit = dsi [''pascal''], conv_factor = (100, 0)\<rparr>),
    (js ''hPa'', \<lparr>conv_dsiUnit = dsi [''pascal''], conv_factor = (100, 0)\<rparr>)
  ]"

text \<open>
  \<open>UNIT_MAP\<close> is an object literal, so \<open>UNIT_MAP[k]\<close> finds an own property (a table
  entry) or, failing that, a property inherited from \<open>Object.prototype\<close>, which is a
  function or an object and therefore truthy, with neither a \<open>dsiUnit\<close> nor a
  \<open>factor\<close>.
\<close>

definition Object_prototype_keys :: "ustring list" where
  "Object_prototype_keys =
     [js ''constructor'', js ''hasOwnProperty'', js ''isPrototypeOf'',
      js ''propertyIsEnumerable'', js ''toLocaleString'', js ''toString'', js ''valueOf'',
      js ''__proto__'', js ''__defineGetter__'', js ''__defineSetter__'',
      js ''__lookupGetter__'', js ''__lookupSetter__'']"

datatype lookup = Own DsiConversion | Inherited | Absent

definition get_property :: "(ustring \<times> DsiConversion) list \<Rightarrow> ustring \<Rightarrow> lookup" where
  "get_property tbl k =
     (case map_of tbl k of
        Some c \<Rightarrow> Own c
      | None \<Rightarrow> if k \<in> set Object_prototype_keys then Inherited else Absent)"

text \<open>
  The direct lookup followed, when it finds nothing, by the case-insensitive search through
  \<open>Object.keys(UNIT_MAP)\<close>, which lists the own keys in the order of the literal.
\<close>

definition lookup_unit :: "(ustring \<times> DsiConversion) list \<Rightarrow> ustring \<Rightarrow> lookup" where
  "lookup_unit tbl cleanUnit =
     (case get_property tbl cleanUnit of
        Absent \<Rightarrow>
          (case find (\<lambda>k. toLowerCase k = toLowerCase cleanUnit) (map fst tbl) of
             Some lowerKey \<Rightarrow> get_property tbl lowerKey
           | None \<Rightarrow> Absent)
      | c \<Rightarrow> c)"

text \<open>
  \<open>safeUnit.replace(/^\s*in\s+/i, '')\<close>: a leading "in" in either case, with white space
  after it, is cut off together with the white space around it.
\<close>

definition strip_in_prefix :: "ustring \<Rightarrow> ustring" where
  "strip_in_prefix s =
     (case dropWhile is_space s of
        i # n # w # rest \<Rightarrow>
          if (i = 105 \<or> i = 73) \<and> (n = 110 \<or> n = 78) \<and> is_space w
          then dropWhile is_space rest else s
      | _ \<Rightarrow> s)"

definition superscripts_to_ascii :: "ustring \<Rightarrow> ustring" where
  "superscripts_to_ascii s =
     replace_unit 179 (js ''3'') (replace_unit 178 (js ''2'') (replace_unit 185 (js ''1'')
       (replace_unit 8315 (js ''-'') (replace_pair 8315 185 (js ''-1'') s))))"

text \<open>
  Steps 3 of \<open>convertToDSI\<close>: the conversion rule found for a unit, and the value of
  \<open>cleanUnit\<close> at the end of the search (the fallback overwrites it).
\<close>

definition findConversion ::
  "(ustring \<times> DsiConversion) list \<Rightarrow> ustring \<Rightarrow> lookup \<times> ustring" where
  "findConversion tbl safeUnit =
     (let cleanUnit = filter (\<lambda>c. \<not> is_space c) (trim (strip_in_prefix safeUnit))
      in case lookup_unit tbl cleanUnit of
           Absent \<Rightarrow>
             (let cleanUnit' = superscripts_to_ascii cleanUnit
              in (lookup_unit tbl cleanUnit', cleanUnit'))
         | c \<Rightarrow> (c, cleanUnit))"

text \<open>\<open>s.replace(/[^0-9.eE-]/g, '')\<close>.\<close>

definition numStr :: "ustring \<Rightarrow> ustring" where
  "numStr s = filter (\<lambda>c. is_digit c \<or> c = 46 \<or> c = 101 \<or> c = 69 \<or> c = 45) s"

record DsiResult =
  dsiValue :: ustring
  dsiUnit :: "ustring option"

definition no_result :: DsiResult where
  "no_result = \<lparr>dsiValue = [], dsiUnit = Some []\<rparr>"

text \<open>
  \<open>convertToDSI\<close> of the older copy src/utils/unitConverter.ts. The callers pass a string or nothing for \<open>value\<close> and for
  \<open>unit\<close>; \<open>None\<close> stands for \<open>undefined\<close> and \<open>null\<close>. A result whose \<open>dsiUnit\<close>
  is \<open>None\<close> has \<open>dsiUnit: undefined\<close>: the rule was an inherited property, and the product
  with its missing factor is \<open>NaN\<close>.
\<close>

definition convertToDSI :: "ustring option \<Rightarrow> ustring option \<Rightarrow> DsiResult" where
  "convertToDSI val unit =
     (case val of
        None \<Rightarrow> no_result
      | Some valStr \<Rightarrow>
         (case unit of
            None \<Rightarrow> no_result
          | Some safeUnit \<Rightarrow>
             (let conversion = fst (findConversion UNIT_MAP safeUnit);
                  numValue = parseFloat (numStr valStr)
              in case conversion of
                   Absent \<Rightarrow> no_result
                 | Inherited \<Rightarrow>
                     if numValue = NaN then no_result
                     else \<lparr>dsiValue = format6 NaN, dsiUnit = None\<rparr>
                 | Own c \<Rightarrow>
                     if numValue = NaN then no_result
                     else \<lparr>dsiValue =
                             (if \<not> dec_is_one (conv_factor c)
                              then format6 (scale numValue (conv_factor c))
                              else numStr valStr),
                           dsiUnit = Some (conv_dsiUnit c)\<rparr>)))"

subsection \<open>The converter of src/unnamed/part_002\<close>

definition UNIT_MAP_rev :: "(ustring \<times> DsiConversion) list" where
  "UNIT_MAP_rev = [
    (js ''%'', \<lparr>conv_dsiUnit = dsi [''percent''], conv_factor = (1, 0)\<rparr>),
    (js ''percent'', \<lparr>conv_dsiUnit = dsi [''percent''], conv_factor = (1, 0)\<rparr>),
    (js ''ppm'', \<lparr>conv_dsiUnit = dsi [''one''], conv_factor = (1, -6)\<rparr>),
    (js ''ppb'', \<lparr>conv_dsiUnit = dsi [''one''], conv_factor = (1, -9)\<rparr>),
    (js ''one'', \<lparr>conv_dsiUnit = dsi [''one''], conv_factor = (1, 0)\<rparr>),
    (js ''/one'', \<lparr>conv_dsiUnit = dsi [''one''], conv_factor = (1, 0)\<rparr>),
    ([92] @ js ''one'', \<lparr>conv_dsiUnit = dsi [''one''], conv_factor = (1, 0)\<rparr>),
    (js ''mg/kg'', \<lparr>conv_dsiUnit = dsi [''milli'', ''gram'', ''kilogram'', ''tothe{-1}''], conv_factor = (1, 0)\<rparr>),
    (js ''mgkg-1'', \<lparr>conv_dsiUnit = dsi [''milli'', ''gram'', ''kilogram'', ''tothe{-1}''], conv_factor = (1, 0)\<rparr>),
    (js ''mgkg'' @ [8315] @ [185], \<lparr>conv_dsiUnit = dsi [''milli'', ''gram'', ''kilogram'', ''tothe{-1}''], conv_factor = (1, 0)\<rparr>),
    ([181] @ js ''g/kg'', \<lparr>conv_dsiUnit = dsi [''micro'', ''gram'', ''kilogram'', ''tothe{-1}''], conv_factor = (1, 0)\<rparr>),
    (js ''ug/kg'', \<lparr>conv_dsiUnit = dsi [''micro'', ''gram'', ''kilogram'', ''tothe{-1}''], conv_factor = (1, 0)\<rparr>),
    ([956] @ js ''g/kg'', \<lparr>conv_dsiUnit = dsi [''micro'', ''gram'', ''kilogram'', ''tothe{-1}''], conv_factor = (1, 0)\<rparr>),
    ([181] @ js ''gkg-1'', \<lparr>conv_dsiUnit = dsi [''micro'', ''gram'', ''kilogram'', ''tothe{-1}''], conv_factor = (1, 0)\<rparr>),
    (js ''ugkg-1'', \<lparr>conv_dsiUnit = dsi [''micro'', ''gram'', ''kilogram'', ''tothe{-1}''], conv_factor = (1, 0)\<rparr>),
    ([181] @ js ''gkg'' @ [8315] @ [185], \<lparr>conv_dsiUnit = dsi [''micro'', ''gram'', ''kilogram'', ''tothe{-1}''], conv_factor = (1, 0)\<rparr>),
    (js ''g/kg'', \<lparr>conv_dsiUnit = dsi [''gram'', ''kilogram'', ''tothe{-1}''], conv_factor = (1, 0)\<rparr>),
    (js ''gkg-1'', \<lparr>conv_dsiUnit = dsi [''gram'', ''kilogram'', ''tothe{-1}''], conv_factor = (1, 0)\<rparr>),
    (js ''gkg'' @ [8315] @ [185], \<lparr>conv_dsiUnit = dsi [''gram'', ''kilogram'', ''tothe{-1}''], conv_factor = (1, 0)\<rparr>),
    (js ''mg/g'', \<lparr>conv_dsiUnit = dsi [''milli'', ''gram'', ''gram'', ''tothe{-1}''], conv_factor = (1, 0)\<rparr>),
    (js ''mgg-1'', \<lparr>conv_dsiUnit = dsi [''milli'', ''gram'', ''gram'', ''tothe{-1}''], conv_factor = (1, 0)\<rparr>),
    (js ''ug/g'', \<lparr>conv_dsiUnit = dsi [''micro'', ''gram'', ''gram'', ''tothe{-1}''], conv_factor = (1, 0)\<rparr>),
    ([181] @ js ''g/g'', \<lparr>conv_dsiUnit = dsi [''micro'', ''gram'', ''gram'', ''tothe{-1}''], conv_factor = (1, 0)\<rparr>),
    ([956] @ js ''g/g'', \<lparr>conv_dsiUnit = dsi [''micro'', ''gram'', ''gram'', ''tothe{-1}''], conv_factor = (1, 0)\<rparr>),
    (js ''g/100g'', \<lparr>conv_dsiUnit = dsi [''gram'', ''hecto'', ''gram'', ''tothe{-1}''], conv_factor = (1, 0)\<rparr>),
    (js ''m2/g'', \<lparr>conv_dsiUnit = dsi [''metre'', ''tothe{2}'', ''gram'', ''tothe{-1}''], conv_factor = (1, 0)\<rparr>),
    (js ''m'' @ [178] @ js ''/g'', \<lparr>conv_dsiUnit = dsi [''metre'', ''tothe{2}'', ''gram'', ''tothe{-1}''], conv_factor = (1, 0)\<rparr>),
    (js ''cm2/g'', \<lparr>conv_dsiUnit = dsi [''centi'', ''metre'', ''tothe{2}'', ''gram'', ''tothe{-1}''], conv_factor = (1, 0)\<rparr>),
    (js ''cm'' @ [178] @ js ''/g'', \<lparr>conv_dsiUnit = dsi [''centi'', ''metre'', ''tothe{2}'', ''gram'', ''tothe{-1}''], conv_factor = (1, 0)\<rparr>),
    (js ''mg'', \<lparr>conv_dsiUnit = dsi [''milli'', ''gram''], conv_factor = (1, 0)\<rparr>),
    (js ''g'', \<lparr>conv_dsiUnit = dsi [''gram''], conv_factor = (1, 0)\<rparr>),
    (js ''kg'', \<lparr>conv_dsiUnit = dsi [''kilogram''], conv_factor = (1, 0)\<rparr>),
    (js ''ug'', \<lparr>conv_dsiUnit = dsi [''micro'', ''gram''], conv_factor = (1, 0)\<rparr>),
    ([181] @ js ''g'', \<lparr>conv_dsiUnit = dsi [''micro'', ''gram''], conv_factor = (1, 0)\<rparr>),
    ([956] @ js ''g'', \<lparr>conv_dsiUnit = dsi [''micro'', ''gram''], conv_factor = (1, 0)\<rparr>),
    (js ''lb'', \<lparr>conv_dsiUnit = dsi [''kilogram''], conv_factor = (45359237, -8)\<rparr>),
    (js ''oz'', \<lparr>conv_dsiUnit = dsi [''kilogram''], conv_factor = (2834959, -8)\<rparr>),
    (js ''t'', \<lparr>conv_dsiUnit = dsi [''tonne''], conv_factor = (1000, 0)\<rparr>),
    (js ''nm'', \<lparr>conv_dsiUnit = dsi [''nano'', ''metre''], conv_factor = (1, 0)\<rparr>),
    ([181] @ js ''m'', \<lparr>conv_dsiUnit = dsi [''micro'', ''metre''], conv_factor = (1, 0)\<rparr>),
    ([956] @ js ''m'', \<lparr>conv_dsiUnit = dsi [''micro'', ''metre''], conv_factor = (1, 0)\<rparr>),
    (js ''um'', \<lparr>conv_dsiUnit = dsi [''micro'', ''metre''], conv_factor = (1, 0)\<rparr>),
    (js ''mm'', \<lparr>conv_dsiUnit = dsi [''milli'', ''metre''], conv_factor = (1, 0)\<rparr>),
    (js ''cm'', \<lparr>conv_dsiUnit = dsi [''centi'', ''metre''], conv_factor = (1, 0)\<rparr>),
    (js ''m'', \<lparr>conv_dsiUnit = dsi [''metre''], conv_factor = (1, 0)\<rparr>),
    (js ''km'', \<lparr>conv_dsiUnit = dsi [''kilo'', ''metre''], conv_factor = (1, 0)\<rparr>),
    (js ''inch'', \<lparr>conv_dsiUnit = dsi [''metre''], conv_factor = (254, -4)\<rparr>),
    (js ''in'', \<lparr>conv_dsiUnit = dsi [''metre''], conv_factor = (254, -4)\<rparr>),
    (js ''ft'', \<lparr>conv_dsiUnit = dsi [''metre''], conv_factor = (3048, -4)\<rparr>),
    (js ''mi'', \<lparr>conv_dsiUnit = dsi [''metre''], conv_factor = (1609344, -3)\<rparr>),
    (js ''m2'', \<lparr>conv_dsiUnit = dsi [''metre'', ''tothe{2}''], conv_factor = (1, 0)\<rparr>),
    (js ''m'' @ [178], \<lparr>conv_dsiUnit = dsi [''metre'', ''tothe{2}''], conv_factor = (1, 0)\<rparr>),
    (js ''cm2'', \<lparr>conv_dsiUnit = dsi [''centi'', ''metre'', ''tothe{2}''], conv_factor = (1, 0)\<rparr>),
    (js ''cm'' @ [178], \<lparr>conv_dsiUnit = dsi [''centi'', ''metre'', ''tothe{2}''], conv_factor = (1, 0)\<rparr>),
    (js ''g/cm3'', \<lparr>conv_dsiUnit = dsi [''gram'', ''centi'', ''metre'', ''tothe{-3}''], conv_factor = (1, 0)\<rparr>),
    (js ''g/cm'' @ [179], \<lparr>conv_dsiUnit = dsi [''gram'', ''centi'', ''metre'', ''tothe{-3}''], conv_factor = (1, 0)\<rparr>),
    ([176] @ js ''C'', \<lparr>conv_dsiUnit = dsi [''degreecelsius''], conv_factor = (1, 0)\<rparr>),
    (js ''C'', \<lparr>conv_dsiUnit = dsi [''degreecelsius''], conv_factor = (1, 0)\<rparr>),
    (js ''K'', \<lparr>conv_dsiUnit = dsi [''kelvin''], conv_factor = (1, 0)\<rparr>),
    (js ''h'', \<lparr>conv_dsiUnit = dsi [''hour''], conv_factor = (1, 0)\<rparr>),
    (js ''min'', \<lparr>conv_dsiUnit = dsi [''minute''], conv_factor = (1, 0)\<rparr>),
    (js ''s'', \<lparr>conv_dsiUnit = dsi [''second''], conv_factor = (1, 0)\<rparr>),
    (js ''L'', \<lparr>conv_dsiUnit = dsi [''litre''], conv_factor = (1, 0)\<rparr>),
    (js ''l'', \<lparr>conv_dsiUnit = dsi [''litre''], conv_factor = (1, 0)\<rparr>),
    (js ''mL'', \<lparr>conv_dsiUnit = dsi [''milli'', ''litre''], conv_factor = (1, 0)\<rparr>),
    (js ''ml'', \<lparr>conv_dsiUnit = dsi [''milli'', ''litre''], conv_factor = (1, 0)\<rparr>),
    (js ''Pa'', \<lparr>conv_dsiUnit = dsi [''pascal''], conv_factor = (1, 0)\<rparr>),
    (js ''bar'', \<lparr>conv_dsiUnit = dsi [''pascal''], conv_factor = (100000, 0)\<rparr>),
    (js ''mbar'', \<lparr>conv_dsiUnit = dsi [''pascal''], conv_factor = (100, 0)\<rparr>),
    (js ''hPa'', \<lparr>conv_dsiUnit = dsi [''pascal''], conv_factor = (100, 0)\<rparr>)
  ]"

text \<open>
  \<open>convertToDSI\<close> of src/unnamed/part_002: the factor is
  1 wherever the D-SI unit keeps the prefix of the input unit, a unit that starts with a
  backslash passes through, and with factor 1 the trimmed text of the value is kept.
  \<open>factor\<close> is \<open>None\<close> when the rule was an inherited property (\<open>undefined\<close>).
\<close>

definition convertToDSI_rev :: "ustring option \<Rightarrow> ustring option \<Rightarrow> DsiResult" where
  "convertToDSI_rev val unit =
     (let valStr = (case val of None \<Rightarrow> [] | Some v \<Rightarrow> v)
      in case unit of
           None \<Rightarrow> no_result
         | Some safeUnit \<Rightarrow>
            (let (conversion, cleanUnit) = findConversion UNIT_MAP_rev safeUnit;
                 target =
                   (case conversion of
                      Own c \<Rightarrow> Some (Some (conv_dsiUnit c), Some (conv_factor c))
                    | Inherited \<Rightarrow> Some (None, None)
                    | Absent \<Rightarrow>
                        if cleanUnit \<noteq> [] \<and> hd cleanUnit = 92
                        then Some (Some cleanUnit, Some (1, 0)) else None)
             in case target of
                  None \<Rightarrow> no_result
                | Some (unit', factor) \<Rightarrow>
                   (let numValue = parseFloat (numStr valStr);
                        factor_is_one = (case factor of None \<Rightarrow> False | Some f \<Rightarrow> dec_is_one f)
                    in \<lparr>dsiValue =
                          (if numValue \<noteq> NaN then
                             (if \<not> factor_is_one
                              then (case factor of None \<Rightarrow> format6 NaN
                                                 | Some f \<Rightarrow> format6 (scale numValue f))
                              else trim valStr)
                           else (if factor_is_one \<and> trim valStr \<noteq> [] then trim valStr else [])),
                         dsiUnit = unit'\<rparr>)))"

text \<open>
  A unit is settled when the converter finds for it that same unit with factor 1, by a table
  entry or by the rule for a unit that starts with a backslash.
\<close>

definition settled_unit :: "ustring \<Rightarrow> bool" where
  "settled_unit u =
     (case findConversion UNIT_MAP_rev u of
        (Own c, _) \<Rightarrow> conv_dsiUnit c = u \<and> dec_is_one (conv_factor c)
      | (Inherited, _) \<Rightarrow> False
      | (Absent, cleanUnit) \<Rightarrow> cleanUnit = u \<and> cleanUnit \<noteq> [] \<and> hd cleanUnit = 92)"

section \<open>JavaScript numbers: rounding to a double\<close>

text \<open>
  A JavaScript number is an IEEE 754 double: a multiple \<open>s * 2 ^ q\<close> of a power of two with
  \<open>s < 2 ^ 53\<close> and \<open>q \<ge> -1074\<close>. The result of an arithmetic operation is the exact
  result rounded to the nearest double, a tie going to the even significand. The functions
  below round a non-negative fraction \<open>n / d\<close> of integers (\<open>0 \<le> n\<close>, \<open>0 < d\<close>).
  \<open>bit_length n\<close> is the number of binary digits of \<open>n\<close>; \<open>binary_exponent n d\<close> is the
  largest \<open>e\<close> with \<open>2 ^ e \<le> n / d\<close>; \<open>quantum n d\<close> is the exponent \<open>q\<close> of the doubles
  around \<open>n / d\<close>, and \<open>significand n d\<close> the rounded multiple \<open>s\<close>. Overflow to
  \<open>Infinity\<close> (a result of \<open>2 ^ 1024\<close> or more) is not modelled.
\<close>

function bit_length :: "int \<Rightarrow> int" where
  "bit_length n = (if n \<le> 0 then 0 else 1 + bit_length (n div 2))"
  by pat_completeness auto
termination
  by (relation "measure nat") auto

declare bit_length.simps [simp del]

definition at_least_pow2 :: "int \<Rightarrow> int \<Rightarrow> int \<Rightarrow> bool" where
  "at_least_pow2 n d c = (if 0 \<le> c then d * 2 ^ nat c \<le> n else d \<le> n * 2 ^ nat (- c))"

definition binary_exponent :: "int \<Rightarrow> int \<Rightarrow> int" where
  "binary_exponent n d =
     (let c = bit_length n - bit_length d in if at_least_pow2 n d c then c else c - 1)"

definition quantum :: "int \<Rightarrow> int \<Rightarrow> int" where
  "quantum n d = max (binary_exponent n d - 52) (- 1074)"

definition round_half_even :: "int \<Rightarrow> int \<Rightarrow> int" where
  "round_half_even n d =
     (let q = n div d; r = n mod d
      in if d < 2 * r \<or> (2 * r = d \<and> odd q) then q + 1 else q)"

definition significand :: "int \<Rightarrow> int \<Rightarrow> int" where
  "significand n d =
     (let q = quantum n d
      in if 0 \<le> q then round_half_even n (d * 2 ^ nat q)
         else round_half_even (n * 2 ^ nat (- q)) d)"

definition floor_double :: "int \<Rightarrow> int \<Rightarrow> int" where
  "floor_double n d =
     (if n = 0 then 0
      else (let q = quantum n d; s = significand n d
            in if 0 \<le> q then s * 2 ^ nat q else s div 2 ^ nat (- q)))"

text \<open>
  \<open>to_double n\<close> is the double nearest to the integer \<open>n\<close>, as an integer, and
  \<open>floor_double n d\<close> is \<open>Math.floor\<close> of the double nearest to \<open>n / d\<close>.
\<close>

definition to_double :: "int \<Rightarrow> int" where
  "to_double n = (if n < 0 then - floor_double (- n) 1 else floor_double n 1)"

section \<open>The document model (types.ts, in src/unnamed/part_000)\<close>

text \<open>
  The interfaces of types.ts as records. A property that an object may lack at run time is an
  option, \<open>None\<close> standing for \<open>undefined\<close>: the properties declared optional, and those
  that the extraction merge copies from the payload by object spread (a payload object may
  lack any of its properties). Numbers are integers. A bounding box is a list of numbers, and
  \<open>fieldCoordinates\<close> maps a field name to a box.
\<close>

record Identifier =
  id_scheme :: ustring
  id_value :: ustring
  id_link :: "ustring option"

record Address =
  street :: "ustring option"
  streetNo :: "ustring option"
  postCode :: ustring
  city :: "ustring option"
  countryCode :: ustring

record HasCoordinates =
  fieldCoordinates :: "(ustring \<times> int list) list option"
  sectionCoordinates :: "int list option"

record Producer = HasCoordinates +
  prod_uuid :: ustring
  prod_name :: "ustring option"
  email :: "ustring option"
  phone :: "ustring option"
  fax :: "ustring option"
  address :: Address
  organizationIdentifiers :: "Identifier list"

record ResponsiblePerson = HasCoordinates +
  pers_uuid :: ustring
  pers_name :: ustring
  role :: ustring
  pers_description :: ustring
  mainSigner :: bool
  cryptElectronicSeal :: bool
  cryptElectronicSignature :: bool
  cryptElectronicTimeStamp :: bool

record Material = HasCoordinates +
  mat_uuid :: ustring
  mat_name :: "ustring option"
  materialClass :: ustring
  mat_description :: "ustring option"
  itemQuantities :: ustring
  minimumSampleSize :: ustring
  mat_isCertified :: "bool option"
  materialIdentifiers :: "Identifier list"

record Quantity = HasCoordinates +
  q_uuid :: ustring
  q_name :: "ustring option"
  q_label :: "ustring option"
  q_value :: ustring
  q_dsiValue :: ustring
  q_dsiUnit :: "ustring option"
  quantityKind :: "ustring option"
  q_unit :: ustring
  uncertainty :: ustring
  coverageFactor :: ustring
  coverageProbability :: ustring
  distribution :: ustring
  identifiers :: "Identifier list"

record MeasurementResult = HasCoordinates +
  res_uuid :: ustring
  res_name :: ustring
  res_description :: "ustring option"
  quantities :: "Quantity list"

record MaterialProperty =
  prop_uuid :: ustring
  prop_id :: "ustring option"
  prop_name :: "ustring option"
  prop_isCertified :: "bool option"
  prop_description :: "ustring option"
  procedures :: "ustring option"
  results :: "MeasurementResult list"

record OfficialStatements = HasCoordinates +
  intendedUse :: ustring
  commutability :: ustring
  storageInformation :: ustring
  handlingInstructions :: ustring
  metrologicalTraceability :: ustring
  healthAndSafety :: ustring
  subcontractors :: ustring
  legalNotice :: ustring
  referenceToCertificationReport :: ustring

record CustomStatement =
  cs_uuid :: ustring
  cs_name :: ustring
  cs_content :: ustring

record Statements =
  official :: OfficialStatements
  custom :: "CustomStatement list"

record Comment =
  com_uuid :: ustring
  author :: ustring
  com_date :: ustring
  com_content :: ustring

record AdditionalDocument =
  doc_uuid :: ustring
  doc_title :: ustring
  doc_type :: ustring
  doc_content :: ustring

record AdministrativeData = HasCoordinates +
  title :: ustring
  uniqueIdentifier :: ustring
  dataVersion :: int
  documentIdentifiers :: "Identifier list"
  validityType :: ustring
  durationY :: int
  durationM :: int
  dateOfIssue :: ustring
  specificTime :: ustring
  producers :: "Producer list"
  responsiblePersons :: "ResponsiblePerson list"

text \<open>
  \<open>generalComment\<close> and \<open>binaryDocument\<close> are written by xmlParser.ts and read by
  xmlGenerator.ts. The revision of types.ts that declares them is not among the sources; they
  are typed here from these uses, and absent from the initial document.
\<close>

record BinaryDocument =
  fileName :: ustring
  mimeType :: ustring
  bin_data :: ustring

record DRMD =
  administrativeData :: AdministrativeData
  materials :: "Material list"
  properties :: "MaterialProperty list"
  statements :: Statements
  comments :: "Comment list"
  documents :: "AdditionalDocument list"
  generalComment :: "ustring option"
  binaryDocument :: "BinaryDocument option"

definition INITIAL_ID :: Identifier where
  "INITIAL_ID = \<lparr>id_scheme = [], id_value = [], id_link = Some []\<rparr>"

definition INITIAL_PRODUCER :: Producer where
  "INITIAL_PRODUCER =
     \<lparr>fieldCoordinates = None, sectionCoordinates = None,
      prod_uuid = [], prod_name = Some [], email = Some [], phone = Some [], fax = Some [],
      address = \<lparr>street = Some [], streetNo = Some [], postCode = [], city = Some [],
                 countryCode = []\<rparr>,
      organizationIdentifiers = [INITIAL_ID]\<rparr>"

definition INITIAL_PERSON :: ResponsiblePerson where
  "INITIAL_PERSON =
     \<lparr>fieldCoordinates = None, sectionCoordinates = None,
      pers_uuid = [], pers_name = [], role = [], pers_description = [],
      mainSigner = True, cryptElectronicSeal = False, cryptElectronicSignature = False,
      cryptElectronicTimeStamp = False\<rparr>"

definition INITIAL_QUANTITY :: Quantity where
  "INITIAL_QUANTITY =
     \<lparr>fieldCoordinates = None, sectionCoordinates = None,
      q_uuid = [], q_name = Some [], q_label = Some [], q_value = [], q_dsiValue = [],
      q_dsiUnit = Some [], quantityKind = Some [], q_unit = [], uncertainty = [],
      coverageFactor = js ''2.0'', coverageProbability = js ''0.95'',
      distribution = js ''normal'', identifiers = []\<rparr>"

text \<open>
  The initial document. Its two dates are the day on which the module is loaded,
  \<open>new Date().toISOString().split('T')[0]\<close>, a parameter here.
\<close>

definition INITIAL_DRMD :: "ustring \<Rightarrow> DRMD" where
  "INITIAL_DRMD today =
     \<lparr>administrativeData =
        \<lparr>fieldCoordinates = None, sectionCoordinates = None,
         title = js ''referenceMaterialCertificate'', uniqueIdentifier = [], dataVersion = 0,
         documentIdentifiers = [INITIAL_ID], validityType = js ''Until Revoked'',
         durationY = 0, durationM = 0, dateOfIssue = today, specificTime = today,
         producers = [INITIAL_PRODUCER], responsiblePersons = [INITIAL_PERSON]\<rparr>,
      materials = [], properties = [],
      statements =
        \<lparr>official =
           \<lparr>fieldCoordinates = None, sectionCoordinates = None,
            intendedUse = [], commutability = [], storageInformation = [],
            handlingInstructions = [], metrologicalTraceability = [], healthAndSafety = [],
            subcontractors = [], legalNotice = [], referenceToCertificationReport = []\<rparr>,
         custom = []\<rparr>,
      comments = [], documents = [], generalComment = None, binaryDocument = None\<rparr>"

section \<open>The validator (App.tsx, getValidationReport)\<close>

text \<open>An entry \<open>{section, message}\<close> of the report (\<open>section\<close> is a keyword here).\<close>

record Issue =
  sect :: ustring
  message :: ustring

record Report =
  errors :: "Issue list"
  warnings :: "Issue list"

definition issue :: "string \<Rightarrow> ustring \<Rightarrow> Issue" where
  "issue s m = \<lparr>sect = js s, message = m\<rparr>"

text \<open>
  The callback of \<open>producers.forEach\<close> and of \<open>materials.forEach\<close>: the issues of the
  element at index \<open>i\<close>, numbered from 1 in the message.
\<close>

definition producer_issues :: "nat \<Rightarrow> Producer \<Rightarrow> Issue list" where
  "producer_issues i p =
     (if \<not> truthy (prod_name p)
      then [issue ''Administrative''
              (js ''Producer '' @ show_int (int i + 1) @ js '': Name is required.'')]
      else [])"

definition material_issues :: "nat \<Rightarrow> Material \<Rightarrow> Issue list" where
  "material_issues i m =
     (if \<not> truthy (mat_name m)
      then [issue ''Materials''
              (js ''Material '' @ show_int (int i + 1) @ js '': Name is required.'')]
      else []) @
     (if minimumSampleSize m = []
      then [issue ''Materials''
              (js ''Material '' @ show_int (int i + 1) @ js '': Minimum Sample Size is required.'')]
      else [])"

text \<open>\<open>xs.forEach((x, i) => ...)\<close> collecting what the callback pushes.\<close>

definition forEach_indexed :: "(nat \<Rightarrow> 'a \<Rightarrow> 'b list) \<Rightarrow> 'a list \<Rightarrow> 'b list" where
  "forEach_indexed f xs = concat (map (\<lambda>(i, x). f i x) (enumerate 0 xs))"

definition getValidationReport :: "DRMD \<Rightarrow> Report" where
  "getValidationReport drmdData =
     (let admin = administrativeData drmdData; st = official (statements drmdData)
      in \<lparr>errors =
            (if title admin = []
             then [issue ''Administrative'' (js ''Document Title is missing.'')] else []) @
            (if uniqueIdentifier admin = []
             then [issue ''Administrative'' (js ''Unique Identifier is missing.'')] else []) @
            (if length (producers admin) = 0
             then [issue ''Administrative'' (js ''At least one Producer is required.'')]
             else if length (producers admin) > 1
             then [issue ''Administrative'' (js ''Only ONE Producer is allowed by schema.'')]
             else forEach_indexed producer_issues (producers admin)) @
            (if length (materials drmdData) = 0
             then [issue ''Materials'' (js ''At least one Material must be defined.'')]
             else forEach_indexed material_issues (materials drmdData)) @
            (if intendedUse st = []
             then [issue ''Statements'' (js ''Intended Use is required.'')] else []) @
            (if storageInformation st = []
             then [issue ''Statements'' (js ''Storage Information is required.'')] else []) @
            (if handlingInstructions st = []
             then [issue ''Statements'' (js ''Instructions for Handling and Use are required.'')]
             else []),
          warnings =
            (if length (responsiblePersons admin) = 0
             then [issue ''Administrative'' (js ''No Responsible Persons defined (Warning).'')]
             else [])\<rparr>)"

text \<open>A document with two producers, the first without a name, and otherwise as initial.\<close>

definition two_producers :: DRMD where
  "two_producers =
     (INITIAL_DRMD (js ''2025-01-01''))
       \<lparr>administrativeData :=
          (administrativeData (INITIAL_DRMD (js ''2025-01-01'')))
            \<lparr>producers := [INITIAL_PRODUCER, INITIAL_PRODUCER\<lparr>prod_name := Some (js ''BAM'')\<rparr>]\<rparr>\<rparr>"

section \<open>Validity duration of the extraction payload (App.tsx, handleFileUpload)\<close>

text \<open>
  The part of the payload's \<open>administrativeData\<close> that the duration normalization reads and
  writes; the record of the whole \<open>administrativeData\<close> below extends it. Every property of
  the payload is optional, \<open>None\<close> standing for an absent property. \<open>durationY\<close> and \<open>durationM\<close> are
  JavaScript numbers that the response schema declares as integers: each is a double with an
  integer value, given here by that value.
\<close>

record ExtractedValidity =
  x_validityType :: "ustring option"
  x_durationY :: "int option"
  x_durationM :: "int option"

text \<open>\<open>n || 0\<close> for a number-or-undefined \<open>n\<close>.\<close>

definition num_or_zero :: "int option \<Rightarrow> int" where
  "num_or_zero n = (case n of None \<Rightarrow> 0 | Some k \<Rightarrow> k)"

text \<open>
  Lines 279 to 288 of App.tsx. The product \<open>rawY * 12\<close> and the sum with \<open>rawM\<close> are each
  rounded to a double, as is the quotient \<open>totalMonths / 12\<close> before \<open>Math.floor\<close>. The
  remainder \<open>totalMonths % 12\<close> of a positive double with an integer value is exact. The
  model covers the payloads for which these numbers stay finite.
\<close>

definition normalizeValidityDuration ::
  "'a ExtractedValidity_scheme \<Rightarrow> 'a ExtractedValidity_scheme" where
  "normalizeValidityDuration a =
     (if x_validityType a = Some (js ''Time After Dispatch'') then
        (let rawY = num_or_zero (x_durationY a);
             rawM = num_or_zero (x_durationM a);
             totalMonths = to_double (to_double (rawY * 12) + rawM)
         in if totalMonths > 0
            then a\<lparr>x_durationY := Some (floor_double totalMonths 12),
                   x_durationM := Some (totalMonths mod 12)\<rparr>
            else a)
      else a)"

section \<open>The document object model read by the decoder\<close>

text \<open>
  The tree that the browser's \<open>DOMParser\<close> returns: an element has a qualified name
  (\<open>tagName\<close>, with its prefix), attributes and child nodes; a text node has its text.
  Comments and processing instructions take part in none of the reads below and are left out.
\<close>

datatype node =
  Element ustring "(ustring \<times> ustring) list" "node list"
| Text ustring

text \<open>
  \<open>elements_of n\<close> lists \<open>n\<close>, when it is an element, and the elements below it in
  document order; \<open>elements_in\<close> does so for a list of siblings.
\<close>

fun elements_of :: "node \<Rightarrow> node list" and elements_in :: "node list \<Rightarrow> node list" where
  "elements_of (Text s) = []"
| "elements_of (Element t as cs) = Element t as cs # elements_in cs"
| "elements_in [] = []"
| "elements_in (c # cs) = elements_of c @ elements_in cs"

fun textContent :: "node \<Rightarrow> ustring" and textContents :: "node list \<Rightarrow> ustring" where
  "textContent (Text s) = s"
| "textContent (Element t as cs) = textContents cs"
| "textContents [] = []"
| "textContents (c # cs) = textContent c @ textContents cs"

fun tagName :: "node \<Rightarrow> ustring" where
  "tagName (Element t as cs) = t"
| "tagName (Text s) = []"

fun childNodes :: "node \<Rightarrow> node list" where
  "childNodes (Element t as cs) = cs"
| "childNodes (Text s) = []"

fun is_element :: "node \<Rightarrow> bool" where
  "is_element (Element t as cs) = True"
| "is_element (Text s) = False"

fun getAttribute :: "node \<Rightarrow> ustring \<Rightarrow> ustring option" where
  "getAttribute (Element t as cs) a = map_of as a"
| "getAttribute (Text s) a = None"

text \<open>
  \<open>getElementsByTagName\<close> on an element lists the elements below it with the given
  qualified name; on the document it lists those of the whole tree, the root included.
\<close>

definition getElementsByTagName :: "node \<Rightarrow> ustring \<Rightarrow> node list" where
  "getElementsByTagName parent t = filter (\<lambda>e. tagName e = t) (elements_in (childNodes parent))"

definition doc_getElementsByTagName :: "node \<Rightarrow> ustring \<Rightarrow> node list" where
  "doc_getElementsByTagName root t = filter (\<lambda>e. tagName e = t) (elements_of root)"

text \<open>
  \<open>doc.querySelector("parsererror")\<close>: the type selector matches an element by its local
  name, whatever its prefix.
\<close>

definition localName :: "node \<Rightarrow> ustring" where
  "localName e = (if 58 \<in> set (tagName e) then tl (dropWhile (\<lambda>c. c \<noteq> 58) (tagName e))
                  else tagName e)"

definition querySelector_parsererror :: "node \<Rightarrow> node option" where
  "querySelector_parsererror root =
     find (\<lambda>e. localName e = js ''parsererror'') (elements_of root)"

text \<open>
  The input of the decoder is a text; what the decoder sees of it is the document that
  \<open>parseFromString(xmlString, "text/xml")\<close> returns. A text that is not well-formed XML
  yields an error document, whose shape depends on the browser and which always contains an
  element named \<open>parsererror\<close>; a well-formed text yields the tree of its root element.
\<close>

datatype xml_source = Unparsable | Parsable node

definition parseFromString :: "xml_source \<Rightarrow> node" where
  "parseFromString src =
     (case src of
        Unparsable \<Rightarrow> Element (js ''parsererror'') [] [Text (js ''XML Parsing Error'')]
      | Parsable root \<Rightarrow> root)"

section \<open>The decoder (src/utils/xmlParser.ts)\<close>

definition getTagContent :: "node list \<Rightarrow> ustring" where
  "getTagContent found = (case found of [] \<Rightarrow> [] | el # _ \<Rightarrow> textContent el)"

text \<open>
  \<open>getNestedContent\<close>: follow the path, at each step to the first element below the
  current one with the next name; the empty string when a step finds nothing.
\<close>

fun getNestedContent :: "node \<Rightarrow> ustring list \<Rightarrow> ustring" where
  "getNestedContent current [] = textContent current"
| "getNestedContent current (tag # path) =
     (case getElementsByTagName current tag of
        [] \<Rightarrow> []
      | el # _ \<Rightarrow> getNestedContent el path)"

text \<open>
  \<open>period.match(/(\d+)Y/)\<close> and \<open>period.match(/(\d+)M/)\<close>: the first run of digits that
  is followed by the letter, if there is one.
\<close>

function match_digits_then :: "int \<Rightarrow> ustring \<Rightarrow> ustring option" where
  "match_digits_then c [] = None"
| "match_digits_then c (x # xs) =
     (if is_digit x then
        (let r = dropWhile is_digit xs
         in if r \<noteq> [] \<and> hd r = c then Some (x # takeWhile is_digit xs)
            else match_digits_then c r)
      else match_digits_then c xs)"
  by pat_completeness auto
termination
  by (relation "measure (\<lambda>(c, s). length s)") (auto simp: le_imp_less_Suc length_dropWhile_le)

text \<open>\<open>parseInt\<close> of a run of digits.\<close>

definition parseInt_digits :: "ustring \<Rightarrow> int" where
  "parseInt_digits ds = digits_value (map (\<lambda>c. c - 48) ds)"

datatype error = InvalidXmlFileStructure | TypeError

text \<open>
  The identifiers come from \<open>crypto.randomUUID()\<close>. The model takes them from a parameter
  \<open>uuid\<close>, which gives an identifier for each place of the result (the kind of entity and its
  indices).
\<close>

definition parseProducer :: "(nat list \<Rightarrow> ustring) \<Rightarrow> nat \<Rightarrow> node \<Rightarrow> Producer" where
  "parseProducer uuid i p =
     (let prod = INITIAL_PRODUCER\<lparr>prod_uuid := uuid [0, i],
                   prod_name := Some (getNestedContent p [js ''drmd:name'', js ''dcc:content''])\<rparr>
      in case getElementsByTagName p (js ''drmd:contact'') of
           [] \<Rightarrow> prod
         | contact # _ \<Rightarrow>
            (let prod1 = prod\<lparr>email := Some (getNestedContent contact [js ''dcc:eMail'']),
                              phone := Some (getNestedContent contact [js ''dcc:phone'']),
                              fax := Some (getNestedContent contact [js ''dcc:fax''])\<rparr>
             in case getElementsByTagName contact (js ''dcc:location'') of
                  [] \<Rightarrow> prod1
                | loc # _ \<Rightarrow>
                    prod1\<lparr>address :=
                      \<lparr>street = Some (getNestedContent loc [js ''dcc:street'']),
                       streetNo = Some (getNestedContent loc [js ''dcc:streetNo'']),
                       postCode = getNestedContent loc [js ''dcc:postCode''],
                       city = Some (getNestedContent loc [js ''dcc:city'']),
                       countryCode = getNestedContent loc [js ''dcc:countryCode'']\<rparr>\<rparr>))"

definition parsePerson :: "(nat list \<Rightarrow> ustring) \<Rightarrow> nat \<Rightarrow> node \<Rightarrow> ResponsiblePerson" where
  "parsePerson uuid i p =
     INITIAL_PERSON\<lparr>pers_uuid := uuid [1, i],
       pers_name := getNestedContent p [js ''dcc:person'', js ''dcc:name'', js ''dcc:content''],
       pers_description := getNestedContent p [js ''dcc:description'', js ''dcc:content''],
       role := getTagContent (getElementsByTagName p (js ''dcc:role'')),
       mainSigner := (getTagContent (getElementsByTagName p (js ''dcc:mainSigner'')) = js ''true'')\<rparr>"

definition parseQty :: "node \<Rightarrow> ustring \<Rightarrow> ustring" where
  "parseQty m tag =
     (case getElementsByTagName m tag of
        [] \<Rightarrow> []
      | container # _ \<Rightarrow>
         (case getElementsByTagName container (js ''dcc:itemQuantity'') of
            [] \<Rightarrow> []
          | itemQ # _ \<Rightarrow>
             (case getElementsByTagName itemQ (js ''drmd:real'') of
                real # _ \<Rightarrow>
                  getNestedContent real [js ''si:value''] @ js '' '' @
                  getNestedContent real [js ''si:unit'']
              | [] \<Rightarrow>
                 (case getElementsByTagName itemQ (js ''drmd:noQuantity'') of
                    noQ # _ \<Rightarrow> getNestedContent noQ [js ''dcc:content'']
                  | [] \<Rightarrow> []))))"

definition parseMaterial :: "(nat list \<Rightarrow> ustring) \<Rightarrow> nat \<Rightarrow> node \<Rightarrow> Material" where
  "parseMaterial uuid i m =
     \<lparr>fieldCoordinates = None, sectionCoordinates = None,
      mat_uuid = uuid [2, i],
      mat_name = Some (getNestedContent m [js ''drmd:name'', js ''dcc:content'']),
      materialClass = [],
      mat_description = Some (getNestedContent m [js ''drmd:description'', js ''dcc:content'']),
      itemQuantities = parseQty m (js ''drmd:itemQuantities''),
      minimumSampleSize = parseQty m (js ''drmd:minimumSampleSize''),
      mat_isCertified = Some False,
      materialIdentifiers = [INITIAL_ID]\<rparr>"

definition parseQuantity :: "(nat list \<Rightarrow> ustring) \<Rightarrow> nat list \<Rightarrow> node \<Rightarrow> Quantity" where
  "parseQuantity uuid path q =
     (let quant = INITIAL_QUANTITY\<lparr>q_uuid := uuid path, identifiers := [],
                    q_name := Some (getNestedContent q [js ''dcc:name'', js ''dcc:content''])\<rparr>
      in case getElementsByTagName q (js ''si:real'') of
           [] \<Rightarrow> quant
         | real # _ \<Rightarrow>
            (let quant1 = quant\<lparr>q_value := getNestedContent real [js ''si:value''],
                                q_unit := getNestedContent real [js ''si:unit''],
                                q_dsiUnit := Some (getNestedContent real [js ''si:unit'']),
                                q_dsiValue := getNestedContent real [js ''si:value'']\<rparr>
             in case getElementsByTagName real (js ''si:expandedMU'') of
                  [] \<Rightarrow> quant1
                | expandedMU # _ \<Rightarrow>
                    quant1\<lparr>uncertainty := getNestedContent expandedMU [js ''si:valueExpandedMU''],
                           coverageFactor := getNestedContent expandedMU [js ''si:coverageFactor''],
                           coverageProbability :=
                             getNestedContent expandedMU [js ''si:coverageProbability'']\<rparr>))"

definition parseResult :: "(nat list \<Rightarrow> ustring) \<Rightarrow> nat \<Rightarrow> nat \<Rightarrow> node \<Rightarrow> MeasurementResult" where
  "parseResult uuid i j r =
     \<lparr>fieldCoordinates = None, sectionCoordinates = None,
      res_uuid = uuid [3, i, j],
      res_name = getNestedContent r [js ''drmd:name'', js ''dcc:content''],
      res_description = Some (getNestedContent r [js ''drmd:description'', js ''dcc:content'']),
      quantities = map (\<lambda>(k, q). parseQuantity uuid [3, i, j, k] q)
                     (enumerate 0 (getElementsByTagName r (js ''drmd:quantity'')))\<rparr>"

definition parseProperty :: "(nat list \<Rightarrow> ustring) \<Rightarrow> nat \<Rightarrow> node \<Rightarrow> MaterialProperty" where
  "parseProperty uuid i p =
     \<lparr>prop_uuid = uuid [3, i],
      prop_id = Some [],
      prop_name = Some (getNestedContent p [js ''drmd:name'', js ''dcc:content'']),
      prop_isCertified = Some (getAttribute p (js ''isCertified'') = Some (js ''true'')),
      prop_description = Some (getNestedContent p [js ''drmd:description'', js ''dcc:content'']),
      procedures = Some (getNestedContent p
         [js ''drmd:procedures'', js ''dcc:usedMethod'', js ''dcc:description'', js ''dcc:content'']),
      results = map (\<lambda>(j, r). parseResult uuid i j r)
                  (enumerate 0 (getElementsByTagName p (js ''drmd:result'')))\<rparr>"

text \<open>
  \<open>getSt\<close>: the text of the first child element named \<open>dcc:content\<close> of the first
  element named \<open>drmd:tag\<close> below \<open>statements\<close>.
\<close>

definition getSt :: "node \<Rightarrow> string \<Rightarrow> ustring" where
  "getSt stmts tag =
     (case getElementsByTagName stmts (js ''drmd:'' @ js tag) of
        [] \<Rightarrow> []
      | el # _ \<Rightarrow>
         (case find (\<lambda>n. is_element n \<and> tagName n = js ''dcc:content'') (childNodes el) of
            Some n \<Rightarrow> textContent n
          | None \<Rightarrow> []))"

definition parseValidity :: "node \<Rightarrow> AdministrativeData \<Rightarrow> AdministrativeData" where
  "parseValidity vld a =
     (if getElementsByTagName vld (js ''drmd:untilRevoked'') \<noteq> [] then
        a\<lparr>validityType := js ''Until Revoked''\<rparr>
      else if getElementsByTagName vld (js ''drmd:specificTime'') \<noteq> [] then
        a\<lparr>validityType := js ''Specific Time'',
          specificTime := getNestedContent vld [js ''drmd:specificTime'']\<rparr>
      else (case getElementsByTagName vld (js ''drmd:timeAfterDispatch'') of
              [] \<Rightarrow> a
            | tad # _ \<Rightarrow>
               (let period = getNestedContent tad [js ''drmd:period''];
                    date = getNestedContent tad [js ''drmd:dispatchDate'']
                in a\<lparr>validityType := js ''Time After Dispatch'',
                     dateOfIssue := date,
                     durationY := (case match_digits_then 89 period of
                                     Some y \<Rightarrow> parseInt_digits y | None \<Rightarrow> 0),
                     durationM := (case match_digits_then 77 period of
                                     Some m \<Rightarrow> parseInt_digits m | None \<Rightarrow> 0)\<rparr>)))"

definition parseCoreData :: "node \<Rightarrow> AdministrativeData \<Rightarrow> AdministrativeData" where
  "parseCoreData core a =
     (let a1 = a\<lparr>title := getNestedContent core [js ''drmd:titleOfTheDocument''],
                 uniqueIdentifier := getNestedContent core [js ''drmd:uniqueIdentifier'']\<rparr>
      in case getElementsByTagName core (js ''drmd:validity'') of
           [] \<Rightarrow> a1
         | vld # _ \<Rightarrow> parseValidity vld a1)"

definition parseAdministrativeData ::
  "(nat list \<Rightarrow> ustring) \<Rightarrow> node \<Rightarrow> AdministrativeData \<Rightarrow> AdministrativeData" where
  "parseAdministrativeData uuid admin a =
     (let a1 = (case getElementsByTagName admin (js ''drmd:coreData'') of
                  [] \<Rightarrow> a
                | core # _ \<Rightarrow> parseCoreData core a);
          prods = getElementsByTagName admin (js ''drmd:referenceMaterialProducer'');
          a2 = (if length prods > 0
                then a1\<lparr>producers := map (\<lambda>(i, p). parseProducer uuid i p) (enumerate 0 prods)\<rparr>
                else a1);
          persons = getElementsByTagName admin (js ''dcc:respPerson'')
      in if length persons > 0
         then a2\<lparr>responsiblePersons :=
                   map (\<lambda>(i, p). parsePerson uuid i p) (enumerate 0 persons)\<rparr>
         else a2)"

definition parseStatements :: "node \<Rightarrow> OfficialStatements \<Rightarrow> OfficialStatements" where
  "parseStatements stmts st =
     st\<lparr>intendedUse := getSt stmts ''intendedUse'',
        storageInformation := getSt stmts ''storageInformation'',
        handlingInstructions := getSt stmts ''instructionsForHandlingAndUse'',
        metrologicalTraceability := getSt stmts ''metrologicalTraceability'',
        subcontractors := getSt stmts ''subcontractors'',
        referenceToCertificationReport := getSt stmts ''referenceToCertificationReport'',
        healthAndSafety := getSt stmts ''healthAndSafetyInformation'',
        legalNotice := getSt stmts ''legalNotice''\<rparr>"

text \<open>The body of \<open>parseDrmdXml\<close> after the check for a parse error.\<close>

definition decodeDocument :: "ustring \<Rightarrow> (nat list \<Rightarrow> ustring) \<Rightarrow> node \<Rightarrow> DRMD" where
  "decodeDocument today uuid doc =
     (let data = INITIAL_DRMD today;
          data1 = (case doc_getElementsByTagName doc (js ''drmd:administrativeData'') of
                     [] \<Rightarrow> data
                   | admin # _ \<Rightarrow>
                       data\<lparr>administrativeData :=
                              parseAdministrativeData uuid admin (administrativeData data)\<rparr>);
          mats = doc_getElementsByTagName doc (js ''drmd:material'');
          data2 = (if length mats > 0
                   then data1\<lparr>materials := map (\<lambda>(i, m). parseMaterial uuid i m) (enumerate 0 mats)\<rparr>
                   else data1);
          props = doc_getElementsByTagName doc (js ''drmd:materialProperties'');
          data3 = (if length props > 0
                   then data2\<lparr>properties := map (\<lambda>(i, p). parseProperty uuid i p) (enumerate 0 props)\<rparr>
                   else data2);
          data4 = (case doc_getElementsByTagName doc (js ''drmd:statements'') of
                     [] \<Rightarrow> data3
                   | stmts # _ \<Rightarrow>
                       data3\<lparr>statements :=
                          (statements data3)\<lparr>official :=
                             parseStatements stmts (official (statements data3))\<rparr>\<rparr>);
          data5 = data4\<lparr>generalComment :=
                     Some (getTagContent (doc_getElementsByTagName doc (js ''drmd:comment'')))\<rparr>;
          docContent = getTagContent (doc_getElementsByTagName doc (js ''drmd:document''))
      in if docContent \<noteq> []
         then data5\<lparr>binaryDocument :=
                 Some \<lparr>fileName = js ''imported_document.pdf'', mimeType = js ''application/pdf'',
                       bin_data = trim docContent\<rparr>\<rparr>
         else data5)"

definition parseDrmdXml :: "ustring \<Rightarrow> (nat list \<Rightarrow> ustring) \<Rightarrow> xml_source \<Rightarrow> error + DRMD" where
  "parseDrmdXml today uuid xmlString =
     (let doc = parseFromString xmlString
      in case querySelector_parsererror doc of
           Some errorNode \<Rightarrow> Inl InvalidXmlFileStructure
         | None \<Rightarrow> Inr (decodeDocument today uuid doc))"


definition one_quantity_xml :: node where
  "one_quantity_xml =
     Element (js ''drmd:digitalReferenceMaterialDocument'') []
       [Element (js ''drmd:materialPropertiesList'') []
          [Element (js ''drmd:materialProperties'') [(js ''isCertified'', js ''true'')]
             [Element (js ''drmd:results'') []
                [Element (js ''drmd:result'') []
                   [Element (js ''drmd:data'') []
                      [Element (js ''drmd:list'') []
                         [Element (js ''drmd:quantity'') []
                            [Element (js ''si:real'') []
                               [Element (js ''si:value'') [] [Text (js ''4.9'')],
                                Element (js ''si:unit'') [] [Text (92 # js ''gram'')]]],
                          Element (js ''drmd:quantity'') [] []]]]]]]]"

section \<open>The extraction payload (services/geminiService.ts, RESPONSE_SCHEMA)\<close>

text \<open>
  The payload is the parsed JSON answer of the extraction service: the shape of the document
  with every property optional. The records follow the response schema.
\<close>

record ExtractedAddress =
  xa_street :: "ustring option"
  xa_streetNo :: "ustring option"
  xa_postCode :: "ustring option"
  xa_city :: "ustring option"
  xa_countryCode :: "ustring option"

record ExtractedProducer = HasCoordinates +
  xprod_name :: "ustring option"
  xprod_email :: "ustring option"
  xprod_phone :: "ustring option"
  xprod_fax :: "ustring option"
  xprod_address :: "ExtractedAddress option"

record ExtractedPerson = HasCoordinates +
  xpers_name :: "ustring option"
  xpers_role :: "ustring option"
  xpers_description :: "ustring option"

record ExtractedAdministrativeData = ExtractedValidity +
  x_title :: "ustring option"
  x_uniqueIdentifier :: "ustring option"
  x_dateOfIssue :: "ustring option"
  x_specificTime :: "ustring option"
  x_fieldCoordinates :: "(ustring \<times> int list) list option"
  x_producers :: "ExtractedProducer list option"
  x_responsiblePersons :: "ExtractedPerson list option"

record ExtractedMaterial = HasCoordinates +
  xm_name :: "ustring option"
  xm_description :: "ustring option"
  xm_minimumSampleSize :: "ustring option"
  xm_materialClass :: "ustring option"
  xm_itemQuantities :: "ustring option"
  xm_isCertified :: "bool option"

record ExtractedQuantity =
  xq_name :: "ustring option"
  xq_value :: "ustring option"
  xq_unit :: "ustring option"
  xq_dsiValue :: "ustring option"
  xq_dsiUnit :: "ustring option"
  xq_uncertainty :: "ustring option"
  xq_coverageFactor :: "ustring option"
  xq_coverageProbability :: "ustring option"
  xq_distribution :: "ustring option"
  xq_fieldCoordinates :: "(ustring \<times> int list) list option"

record ExtractedResult =
  xr_name :: "ustring option"
  xr_description :: "ustring option"
  xr_sectionCoordinates :: "int list option"
  xr_quantities :: "ExtractedQuantity list option"

record ExtractedProperty =
  xp_name :: "ustring option"
  xp_isCertified :: "bool option"
  xp_description :: "ustring option"
  xp_procedures :: "ustring option"
  xp_results :: "ExtractedResult list option"

record ExtractedOfficial =
  xo_intendedUse :: "ustring option"
  xo_storageInformation :: "ustring option"
  xo_handlingInstructions :: "ustring option"
  xo_metrologicalTraceability :: "ustring option"
  xo_healthAndSafety :: "ustring option"
  xo_subcontractors :: "ustring option"
  xo_legalNotice :: "ustring option"
  xo_referenceToCertificationReport :: "ustring option"
  xo_fieldCoordinates :: "(ustring \<times> int list) list option"

record ExtractedData =
  xd_administrativeData :: "ExtractedAdministrativeData option"
  xd_materials :: "ExtractedMaterial list option"
  xd_properties :: "ExtractedProperty list option"
  xd_official :: "ExtractedOfficial option"

section \<open>The extraction merge (App.tsx, the state update of handleFileUpload)\<close>

text \<open>\<open>xs || []\<close> for an optional array.\<close>

definition list_or_empty :: "'a list option \<Rightarrow> 'a list" where
  "list_or_empty xs = (case xs of None \<Rightarrow> [] | Some l \<Rightarrow> l)"

text \<open>\<open>x?.f\<close> for an optional object \<open>x\<close> and an optional property \<open>f\<close>.\<close>

definition opt_chain :: "'a option \<Rightarrow> ('a \<Rightarrow> 'b option) \<Rightarrow> 'b option" where
  "opt_chain x f = (case x of None \<Rightarrow> None | Some a \<Rightarrow> f a)"

text \<open>\<open>s.includes(sub)\<close>.\<close>

fun str_includes :: "ustring \<Rightarrow> ustring \<Rightarrow> bool" where
  "str_includes [] sub = (sub = [])"
| "str_includes (x # xs) sub = (take (length sub) (x # xs) = sub \<or> str_includes xs sub)"

definition is_lower_alnum :: "int \<Rightarrow> bool" where
  "is_lower_alnum c = ((97 \<le> c \<and> c \<le> 122) \<or> is_digit c)"

definition normalizeName :: "ustring option \<Rightarrow> ustring" where
  "normalizeName s = (if truthy s then filter is_lower_alnum (toLowerCase (the s)) else [])"

definition newMat :: "(nat list \<Rightarrow> ustring) \<Rightarrow> nat \<Rightarrow> ExtractedMaterial \<Rightarrow> Material" where
  "newMat uuid i m =
     \<lparr>fieldCoordinates = fieldCoordinates m, sectionCoordinates = sectionCoordinates m,
      mat_uuid = uuid [4, i],
      mat_name = xm_name m,
      materialClass = or_else (xm_materialClass m) [],
      mat_description = xm_description m,
      itemQuantities = or_else (xm_itemQuantities m) (js ''1''),
      minimumSampleSize = or_else (xm_minimumSampleSize m) [],
      mat_isCertified = xm_isCertified m,
      materialIdentifiers = [INITIAL_ID]\<rparr>"

text \<open>
  \<open>propDesc.match(/^(\d+\)|1\)|\*)/)\<close>: the description starts with digits and a closing
  parenthesis, or with a star.
\<close>

definition isFootnote :: "ustring \<Rightarrow> bool" where
  "isFootnote propDesc =
     (case propDesc of
        [] \<Rightarrow> False
      | c # _ \<Rightarrow>
          c = 42 \<or>
          (is_digit c \<and> (case dropWhile is_digit propDesc of [] \<Rightarrow> False | d # _ \<Rightarrow> d = 41)))"

definition isFragment :: "ExtractedResult \<Rightarrow> bool" where
  "isFragment r =
     (let rName = trim (toLowerCase (or_else (xr_name r) []))
      in str_includes rName (js ''in mg/kg'') \<or> str_includes rName (js ''in %'') \<or>
         rName = js ''mg/kg'' \<or> rName = js ''%'' \<or> rName = [])"

text \<open>
  The body of \<open>p.results.forEach\<close>: a fragment is merged into the first result that the
  entry of the property already holds, any other result is added as a new table.
\<close>

definition addResult :: "ExtractedResult list \<Rightarrow> ExtractedResult \<Rightarrow> ExtractedResult list" where
  "addResult rs r =
     (case rs of
        first # rest \<Rightarrow>
          if isFragment r then
            (let first1 = (case xr_quantities r of
                             None \<Rightarrow> first
                           | Some qs \<Rightarrow>
                               first\<lparr>xr_quantities :=
                                  Some (list_or_empty (xr_quantities first) @ qs)\<rparr>);
                 first2 = (if truthy (xr_description r)
                           then first1\<lparr>xr_description :=
                                  Some (or_else (xr_description first1) [] @ [10] @
                                        the (xr_description r))\<rparr>
                           else first1)
             in first2 # rest)
          else rs @ [r]
      | [] \<Rightarrow> [r])"

text \<open>
  \<open>propertyMap\<close> is an object used as a dictionary: an association list in the order of
  insertion. Its keys come from \<open>normalizeName\<close>; \<open>propertyMap[key]\<close> for the key
  "constructor" finds the constructor that every object inherits, which is truthy and has no
  \<open>results\<close>: no entry is made for such a property, and reading \<open>results.length\<close> for the
  first of its results throws a \<open>TypeError\<close>.
\<close>

fun update_entry ::
  "ustring \<Rightarrow> ('v \<Rightarrow> 'v) \<Rightarrow> (ustring \<times> 'v) list \<Rightarrow> (ustring \<times> 'v) list" where
  "update_entry k f [] = []"
| "update_entry k f ((k', v) # m) =
     (if k' = k then (k', f v) # m else (k', v) # update_entry k f m)"

definition mergeProperty ::
  "(ustring \<times> ExtractedProperty) list \<Rightarrow> ExtractedProperty
     \<Rightarrow> error + (ustring \<times> ExtractedProperty) list" where
  "mergeProperty propertyMap p =
     (let propName = or_else (xp_name p) (js ''Material Properties'');
          propKey = normalizeName (Some propName)
      in if propKey = js ''constructor''
         then (if list_or_empty (xp_results p) = [] then Inr propertyMap else Inl TypeError)
         else
          (let m1 = (case map_of propertyMap propKey of
                       None \<Rightarrow> propertyMap @ [(propKey, p\<lparr>xp_results := Some []\<rparr>)]
                     | Some _ \<Rightarrow> propertyMap);
               propDesc = trim (or_else (xp_description p) []);
               m2 = (if isFootnote propDesc
                     then update_entry propKey (\<lambda>e. e\<lparr>xp_description := Some []\<rparr>) m1
                     else m1)
           in case xp_results p of
                None \<Rightarrow> Inr m2
              | Some rs \<Rightarrow>
                 (let rs1 = (case rs of
                               [] \<Rightarrow> []
                             | r0 # rest \<Rightarrow>
                                 if isFootnote propDesc
                                 then r0\<lparr>xr_description :=
                                         Some ((if truthy (xr_description r0)
                                                then the (xr_description r0) @ [10] else []) @
                                               propDesc)\<rparr> # rest
                                 else rs)
                  in Inr (update_entry propKey
                            (\<lambda>e. e\<lparr>xp_results :=
                                     Some (foldl addResult (list_or_empty (xp_results e)) rs1)\<rparr>)
                            m2))))"

fun mergeProperties ::
  "(ustring \<times> ExtractedProperty) list \<Rightarrow> ExtractedProperty list
     \<Rightarrow> error + (ustring \<times> ExtractedProperty) list" where
  "mergeProperties propertyMap [] = Inr propertyMap"
| "mergeProperties propertyMap (p # ps) =
     (case mergeProperty propertyMap p of
        Inl e \<Rightarrow> Inl e
      | Inr m \<Rightarrow> mergeProperties m ps)"

text \<open>
  \<open>Object.values\<close> lists the values of the keys that are array indices first, in ascending
  order, and then those of the other keys in the order of insertion.
\<close>

definition is_array_index :: "ustring \<Rightarrow> bool" where
  "is_array_index k =
     (k \<noteq> [] \<and> list_all is_digit k \<and> (k = js ''0'' \<or> hd k \<noteq> 48) \<and>
      parseInt_digits k \<le> 4294967294)"

definition Object_values :: "(ustring \<times> 'v) list \<Rightarrow> 'v list" where
  "Object_values m =
     map snd (sort_key (\<lambda>kv. parseInt_digits (fst kv)) (filter (\<lambda>kv. is_array_index (fst kv)) m) @
              filter (\<lambda>kv. \<not> is_array_index (fst kv)) m)"

definition newQuantity :: "(nat list \<Rightarrow> ustring) \<Rightarrow> nat list \<Rightarrow> ExtractedQuantity \<Rightarrow> Quantity" where
  "newQuantity uuid path q =
     (let value0 = or_else (xq_value q) [];
          uncertainty0 = or_else (xq_uncertainty q) [];
          promote = (value0 = [] \<and> uncertainty0 \<noteq> [] \<and>
                     (case trim uncertainty0 of [] \<Rightarrow> False | c # _ \<Rightarrow> c = 60 \<or> c = 62));
          finalValue = (if promote then uncertainty0 else value0);
          finalUncertainty = (if promote then [] else uncertainty0);
          dsi = convertToDSI (Some finalValue) (xq_unit q)
      in \<lparr>fieldCoordinates = xq_fieldCoordinates q, sectionCoordinates = None,
          q_uuid = uuid path,
          q_name = xq_name q,
          q_label = None,
          q_value = finalValue,
          q_dsiValue = dsiValue dsi,
          q_dsiUnit = dsiUnit dsi,
          quantityKind = None,
          q_unit = or_else (xq_unit q) [],
          uncertainty = finalUncertainty,
          coverageFactor = or_else (xq_coverageFactor q) (js ''2.0''),
          coverageProbability = or_else (xq_coverageProbability q) (js ''0.95''),
          distribution = or_else (xq_distribution q) (js ''normal''),
          identifiers = [INITIAL_ID]\<rparr>)"

definition newResult ::
  "(nat list \<Rightarrow> ustring) \<Rightarrow> nat \<Rightarrow> nat \<Rightarrow> ExtractedResult \<Rightarrow> MeasurementResult" where
  "newResult uuid i j r =
     \<lparr>fieldCoordinates = None, sectionCoordinates = xr_sectionCoordinates r,
      res_uuid = uuid [5, i, j],
      res_name = (if truthy (xr_name r) \<and> length (the (xr_name r)) > 1
                  then the (xr_name r) else js ''Values''),
      res_description = xr_description r,
      quantities = map (\<lambda>(k, q). newQuantity uuid [5, i, j, k] q)
                     (enumerate 0 (list_or_empty (xr_quantities r)))\<rparr>"

definition newProp :: "(nat list \<Rightarrow> ustring) \<Rightarrow> nat \<Rightarrow> ExtractedProperty \<Rightarrow> MaterialProperty" where
  "newProp uuid i p =
     \<lparr>prop_uuid = uuid [5, i],
      prop_id = None,
      prop_name = xp_name p,
      prop_isCertified = xp_isCertified p,
      prop_description = xp_description p,
      procedures = xp_procedures p,
      results = map (\<lambda>(j, r). newResult uuid i j r) (enumerate 0 (list_or_empty (xp_results p)))\<rparr>"

definition newProps ::
  "(nat list \<Rightarrow> ustring) \<Rightarrow> ExtractedProperty list option \<Rightarrow> error + MaterialProperty list" where
  "newProps uuid props =
     (case mergeProperties [] (list_or_empty props) of
        Inl e \<Rightarrow> Inl e
      | Inr propertyMap \<Rightarrow>
          Inr (map (\<lambda>(i, p). newProp uuid i p) (enumerate 0 (Object_values propertyMap))))"

definition cleanPostalCode :: "ustring option \<Rightarrow> ustring" where
  "cleanPostalCode pc = (if truthy pc then filter is_digit (the pc) else [])"

definition newProd :: "(nat list \<Rightarrow> ustring) \<Rightarrow> nat \<Rightarrow> ExtractedProducer \<Rightarrow> Producer" where
  "newProd uuid i p =
     (let addr = xprod_address p;
          countryCode0 = or_else (opt_chain addr xa_countryCode) [];
          city0 = or_else (opt_chain addr xa_city) [];
          countryCode1 = (if str_includes (toLowerCase city0) (js ''berlin'') \<or>
                             str_includes (toLowerCase city0) (js ''adlershof'')
                          then js ''DE'' else countryCode0)
      in \<lparr>fieldCoordinates = fieldCoordinates p, sectionCoordinates = sectionCoordinates p,
          prod_uuid = uuid [6, i],
          prod_name = xprod_name p, email = xprod_email p, phone = xprod_phone p,
          fax = xprod_fax p,
          address =
            \<lparr>street = (opt_chain addr xa_street),
             streetNo = (opt_chain addr xa_streetNo),
             postCode = cleanPostalCode (opt_chain addr xa_postCode),
             city = (opt_chain addr xa_city),
             countryCode = countryCode1\<rparr>,
          organizationIdentifiers = [INITIAL_ID]\<rparr>)"

definition newPerson :: "(nat list \<Rightarrow> ustring) \<Rightarrow> nat \<Rightarrow> ExtractedPerson \<Rightarrow> ResponsiblePerson" where
  "newPerson uuid i p =
     INITIAL_PERSON\<lparr>fieldCoordinates := fieldCoordinates p,
       sectionCoordinates := sectionCoordinates p,
       pers_uuid := uuid [7, i],
       pers_name := or_else (xpers_name p) [],
       role := or_else (xpers_role p) [],
       pers_description := or_else (xpers_description p) []\<rparr>"

text \<open>\<open>{...prev, ...x}\<close> for one property: the payload's value when the payload has it.\<close>

definition spread :: "'a \<Rightarrow> 'a option \<Rightarrow> 'a" where
  "spread prev x = (case x of None \<Rightarrow> prev | Some v \<Rightarrow> v)"

definition mergeAdministrativeData ::
  "ustring \<Rightarrow> (nat list \<Rightarrow> ustring) \<Rightarrow> AdministrativeData
     \<Rightarrow> ExtractedAdministrativeData option \<Rightarrow> AdministrativeData" where
  "mergeAdministrativeData today uuid prev x =
     (let newProds = map (\<lambda>(i, p). newProd uuid i p)
                      (enumerate 0 (list_or_empty (opt_chain x x_producers)));
           newPersons = map (\<lambda>(i, p). newPerson uuid i p)
                         (enumerate 0 (list_or_empty (opt_chain x x_responsiblePersons)))
      in prev\<lparr>title := spread (title prev) (opt_chain x x_title),
              validityType := spread (validityType prev) (opt_chain x x_validityType),
              durationY := spread (durationY prev) (opt_chain x x_durationY),
              durationM := spread (durationM prev) (opt_chain x x_durationM),
              specificTime := spread (specificTime prev) (opt_chain x x_specificTime),
              uniqueIdentifier :=
                or_else (opt_chain x x_uniqueIdentifier)
                  (or_else (Some (uniqueIdentifier prev)) (uuid [8])),
              dateOfIssue := today,
              documentIdentifiers := [INITIAL_ID],
              producers := (if length newProds > 0 then newProds else producers prev),
              responsiblePersons :=
                (if length newPersons > 0 then newPersons else responsiblePersons prev),
              fieldCoordinates := opt_chain x x_fieldCoordinates\<rparr>)"

definition mergeOfficial :: "OfficialStatements \<Rightarrow> ExtractedOfficial option \<Rightarrow> OfficialStatements" where
  "mergeOfficial prev x =
     (case x of
        None \<Rightarrow> prev
      | Some xo \<Rightarrow>
          prev\<lparr>intendedUse := spread (intendedUse prev) (xo_intendedUse xo),
               storageInformation := spread (storageInformation prev) (xo_storageInformation xo),
               handlingInstructions :=
                 spread (handlingInstructions prev) (xo_handlingInstructions xo),
               metrologicalTraceability :=
                 spread (metrologicalTraceability prev) (xo_metrologicalTraceability xo),
               healthAndSafety := spread (healthAndSafety prev) (xo_healthAndSafety xo),
               subcontractors := spread (subcontractors prev) (xo_subcontractors xo),
               legalNotice := spread (legalNotice prev) (xo_legalNotice xo),
               referenceToCertificationReport :=
                 spread (referenceToCertificationReport prev)
                   (xo_referenceToCertificationReport xo),
               fieldCoordinates :=
                 (case xo_fieldCoordinates xo of
                    None \<Rightarrow> fieldCoordinates prev | Some c \<Rightarrow> Some c)\<rparr>)"

text \<open>
  The function passed to \<open>setDrmdData\<close> (App.tsx, lines 317 to 477): the document after
  the upload, from the document before it and the payload. \<open>today\<close> is the date of the
  upload.
\<close>

definition mergeExtraction ::
  "ustring \<Rightarrow> (nat list \<Rightarrow> ustring) \<Rightarrow> DRMD \<Rightarrow> ExtractedData \<Rightarrow> error + DRMD" where
  "mergeExtraction today uuid prev extractedData =
     (let newMats = map (\<lambda>(i, m). newMat uuid i m)
                      (enumerate 0 (list_or_empty (xd_materials extractedData)))
      in case newProps uuid (xd_properties extractedData) of
           Inl e \<Rightarrow> Inl e
         | Inr nps \<Rightarrow>
             Inr (prev\<lparr>administrativeData :=
                         mergeAdministrativeData today uuid (administrativeData prev)
                           (xd_administrativeData extractedData),
                       statements :=
                         (statements prev)\<lparr>official :=
                            mergeOfficial (official (statements prev)) (xd_official extractedData)\<rparr>,
                       materials := (if length newMats > 0 then newMats else materials prev),
                       properties := (if length nps > 0 then nps else properties prev)\<rparr>))"

text \<open>
  A payload with a table split by unit headers: the property "Certified Values" with the
  result "in %" of two quantities, then the property "Certified values" with the result
  "in mg/kg" of three quantities; and with one producer.
\<close>

definition xquantity :: "string \<Rightarrow> string \<Rightarrow> string \<Rightarrow> ExtractedQuantity" where
  "xquantity n v u =
     \<lparr>xq_name = Some (js n), xq_value = Some (js v), xq_unit = Some (js u),
      xq_dsiValue = None, xq_dsiUnit = None, xq_uncertainty = None, xq_coverageFactor = None,
      xq_coverageProbability = None, xq_distribution = None, xq_fieldCoordinates = None\<rparr>"

definition xproperty :: "string \<Rightarrow> string \<Rightarrow> ExtractedQuantity list \<Rightarrow> ExtractedProperty" where
  "xproperty n rn qs =
     \<lparr>xp_name = Some (js n), xp_isCertified = Some True, xp_description = None,
      xp_procedures = None,
      xp_results = Some [\<lparr>xr_name = Some (js rn), xr_description = None,
                           xr_sectionCoordinates = None, xr_quantities = Some qs\<rparr>]\<rparr>"

definition split_table_payload :: ExtractedData where
  "split_table_payload =
     \<lparr>xd_administrativeData =
        Some \<lparr>x_validityType = None, x_durationY = None, x_durationM = None,
              x_title = None, x_uniqueIdentifier = None, x_dateOfIssue = None,
              x_specificTime = None, x_fieldCoordinates = None,
              x_producers =
                Some [\<lparr>fieldCoordinates = None, sectionCoordinates = None,
                       xprod_name = Some (js ''BAM''), xprod_email = None, xprod_phone = None,
                       xprod_fax = None, xprod_address = None\<rparr>],
              x_responsiblePersons = Some []\<rparr>,
      xd_materials = None,
      xd_properties =
        Some [xproperty ''Certified Values'' ''in %''
                [xquantity ''Cr'' ''18.2'' ''%'', xquantity ''Ni'' ''8.1'' ''%''],
              xproperty ''Certified values'' ''in mg/kg''
                [xquantity ''Pb'' ''12'' ''mg/kg'', xquantity ''Cd'' ''<0.05'' ''mg/kg'',
                 xquantity ''Hg'' ''0.3'' ''mg/kg'']],
      xd_official = None\<rparr>"

section \<open>The CAS lookup (casMapping.ts, in src/unnamed/part_000)\<close>

definition CAS_DATABASE :: "(ustring \<times> ustring) list" where
  "CAS_DATABASE = [
    (js ''hydrogen'', js ''1333-74-0''), (js ''h'', js ''1333-74-0''),
    (js ''helium'', js ''7440-59-7''), (js ''he'', js ''7440-59-7''),
    (js ''lithium'', js ''7439-93-2''), (js ''li'', js ''7439-93-2''),
    (js ''beryllium'', js ''7440-41-7''), (js ''be'', js ''7440-41-7''),
    (js ''boron'', js ''7440-42-8''), (js ''b'', js ''7440-42-8''),
    (js ''carbon'', js ''7440-44-0''), (js ''c'', js ''7440-44-0''),
    (js ''nitrogen'', js ''7727-37-9''), (js ''n'', js ''7727-37-9''),
    (js ''oxygen'', js ''7782-44-7''), (js ''o'', js ''7782-44-7''),
    (js ''fluorine'', js ''7782-41-4''), (js ''f'', js ''7782-41-4''),
    (js ''neon'', js ''7440-01-9''), (js ''ne'', js ''7440-01-9''),
    (js ''sodium'', js ''7440-23-5''), (js ''na'', js ''7440-23-5''),
    (js ''magnesium'', js ''7439-95-4''), (js ''mg'', js ''7439-95-4''),
    (js ''aluminum'', js ''7429-90-5''), (js ''aluminium'', js ''7429-90-5''),
    (js ''al'', js ''7429-90-5''), (js ''silicon'', js ''7440-21-3''),
    (js ''si'', js ''7440-21-3''), (js ''phosphorus'', js ''7723-14-0''),
    (js ''p'', js ''7723-14-0''), (js ''sulfur'', js ''7704-34-9''),
    (js ''s'', js ''7704-34-9''), (js ''chlorine'', js ''7782-50-5''),
    (js ''cl'', js ''7782-50-5''), (js ''argon'', js ''7440-37-1''),
    (js ''ar'', js ''7440-37-1''), (js ''potassium'', js ''7440-09-7''),
    (js ''k'', js ''7440-09-7''), (js ''calcium'', js ''7440-70-2''),
    (js ''ca'', js ''7440-70-2''), (js ''scandium'', js ''7440-20-2''),
    (js ''sc'', js ''7440-20-2''), (js ''titanium'', js ''7440-32-6''),
    (js ''ti'', js ''7440-32-6''), (js ''vanadium'', js ''7440-62-2''),
    (js ''v'', js ''7440-62-2''), (js ''chromium'', js ''7440-47-3''),
    (js ''cr'', js ''7440-47-3''), (js ''manganese'', js ''7439-96-5''),
    (js ''mn'', js ''7439-96-5''), (js ''iron'', js ''7439-89-6''),
    (js ''fe'', js ''7439-89-6''), (js ''cobalt'', js ''7440-48-4''),
    (js ''co'', js ''7440-48-4''), (js ''nickel'', js ''7440-02-0''),
    (js ''ni'', js ''7440-02-0''), (js ''copper'', js ''7440-50-8''),
    (js ''cu'', js ''7440-50-8''), (js ''zinc'', js ''7440-66-6''),
    (js ''zn'', js ''7440-66-6''), (js ''gallium'', js ''7440-55-3''),
    (js ''ga'', js ''7440-55-3''), (js ''germanium'', js ''7440-56-4''),
    (js ''ge'', js ''7440-56-4''), (js ''arsenic'', js ''7440-38-2''),
    (js ''as'', js ''7440-38-2''), (js ''selenium'', js ''7782-49-2''),
    (js ''se'', js ''7782-49-2''), (js ''bromine'', js ''7726-95-6''),
    (js ''br'', js ''7726-95-6''), (js ''krypton'', js ''7439-90-9''),
    (js ''kr'', js ''7439-90-9''), (js ''rubidium'', js ''7440-17-7''),
    (js ''rb'', js ''7440-17-7''), (js ''strontium'', js ''7440-24-6''),
    (js ''sr'', js ''7440-24-6''), (js ''yttrium'', js ''7440-65-5''),
    (js ''y'', js ''7440-65-5''), (js ''zirconium'', js ''7440-67-7''),
    (js ''zr'', js ''7440-67-7''), (js ''niobium'', js ''7440-03-1''),
    (js ''nb'', js ''7440-03-1''), (js ''molybdenum'', js ''7439-98-7''),
    (js ''mo'', js ''7439-98-7''), (js ''technetium'', js ''7440-26-8''),
    (js ''tc'', js ''7440-26-8''), (js ''ruthenium'', js ''7440-18-8''),
    (js ''ru'', js ''7440-18-8''), (js ''rhodium'', js ''7440-16-6''),
    (js ''rh'', js ''7440-16-6''), (js ''palladium'', js ''7440-05-3''),
    (js ''pd'', js ''7440-05-3''), (js ''silver'', js ''7440-22-4''),
    (js ''ag'', js ''7440-22-4''), (js ''cadmium'', js ''7440-43-9''),
    (js ''cd'', js ''7440-43-9''), (js ''indium'', js ''7440-74-6''),
    (js ''in'', js ''7440-74-6''), (js ''tin'', js ''7440-31-5''),
    (js ''sn'', js ''7440-31-5''), (js ''antimony'', js ''7440-36-0''),
    (js ''sb'', js ''7440-36-0''), (js ''tellurium'', js ''13494-80-9''),
    (js ''te'', js ''13494-80-9''), (js ''iodine'', js ''7553-56-2''),
    (js ''i'', js ''7553-56-2''), (js ''xenon'', js ''7440-63-3''),
    (js ''xe'', js ''7440-63-3''), (js ''cesium'', js ''7440-46-2''),
    (js ''cs'', js ''7440-46-2''), (js ''barium'', js ''7440-39-3''),
    (js ''ba'', js ''7440-39-3''), (js ''lanthanum'', js ''7439-91-0''),
    (js ''la'', js ''7439-91-0''), (js ''cerium'', js ''7440-45-1''),
    (js ''ce'', js ''7440-45-1''), (js ''praseodymium'', js ''7440-10-0''),
    (js ''pr'', js ''7440-10-0''), (js ''neodymium'', js ''7440-00-8''),
    (js ''nd'', js ''7440-00-8''), (js ''promethium'', js ''7440-12-2''),
    (js ''pm'', js ''7440-12-2''), (js ''samarium'', js ''7440-19-9''),
    (js ''sm'', js ''7440-19-9''), (js ''europium'', js ''7440-53-1''),
    (js ''eu'', js ''7440-53-1''), (js ''gadolinium'', js ''7440-54-2''),
    (js ''gd'', js ''7440-54-2''), (js ''terbium'', js ''7440-27-9''),
    (js ''tb'', js ''7440-27-9''), (js ''dysprosium'', js ''7429-91-6''),
    (js ''dy'', js ''7429-91-6''), (js ''holmium'', js ''7440-60-0''),
    (js ''ho'', js ''7440-60-0''), (js ''erbium'', js ''7440-52-0''),
    (js ''er'', js ''7440-52-0''), (js ''thulium'', js ''7440-30-4''),
    (js ''tm'', js ''7440-30-4''), (js ''ytterbium'', js ''7440-64-4''),
    (js ''yb'', js ''7440-64-4''), (js ''lutetium'', js ''7439-94-3''),
    (js ''lu'', js ''7439-94-3''), (js ''hafnium'', js ''7440-58-6''),
    (js ''hf'', js ''7440-58-6''), (js ''tantalum'', js ''7440-25-7''),
    (js ''ta'', js ''7440-25-7''), (js ''tungsten'', js ''7440-33-7''),
    (js ''w'', js ''7440-33-7''), (js ''rhenium'', js ''7440-15-5''),
    (js ''re'', js ''7440-15-5''), (js ''osmium'', js ''7440-04-2''),
    (js ''os'', js ''7440-04-2''), (js ''iridium'', js ''7439-88-5''),
    (js ''ir'', js ''7439-88-5''), (js ''platinum'', js ''7440-06-4''),
    (js ''pt'', js ''7440-06-4''), (js ''gold'', js ''7440-57-5''),
    (js ''au'', js ''7440-57-5''), (js ''mercury'', js ''7439-97-6''),
    (js ''hg'', js ''7439-97-6''), (js ''thallium'', js ''7440-28-0''),
    (js ''tl'', js ''7440-28-0''), (js ''lead'', js ''7439-92-1''),
    (js ''pb'', js ''7439-92-1''), (js ''bismuth'', js ''7440-69-9''),
    (js ''bi'', js ''7440-69-9''), (js ''polonium'', js ''7440-08-6''),
    (js ''po'', js ''7440-08-6''), (js ''astatine'', js ''7440-68-8''),
    (js ''at'', js ''7440-68-8''), (js ''radon'', js ''10043-92-2''),
    (js ''rn'', js ''10043-92-2''), (js ''francium'', js ''7440-73-5''),
    (js ''fr'', js ''7440-73-5''), (js ''radium'', js ''7440-14-4''),
    (js ''ra'', js ''7440-14-4''), (js ''actinium'', js ''7440-34-8''),
    (js ''ac'', js ''7440-34-8''), (js ''thorium'', js ''7440-29-1''),
    (js ''th'', js ''7440-29-1''), (js ''protactinium'', js ''7440-13-3''),
    (js ''pa'', js ''7440-13-3''), (js ''uranium'', js ''7440-61-1''),
    (js ''u'', js ''7440-61-1''), (js ''neptunium'', js ''7439-99-8''),
    (js ''np'', js ''7439-99-8''), (js ''plutonium'', js ''7440-07-5''),
    (js ''pu'', js ''7440-07-5''), (js ''americium'', js ''7440-35-9''),
    (js ''am'', js ''7440-35-9''), (js ''curium'', js ''7440-51-9''),
    (js ''cm'', js ''7440-51-9''), (js ''berkelium'', js ''7440-40-6''),
    (js ''bk'', js ''7440-40-6''), (js ''californium'', js ''7440-71-3''),
    (js ''cf'', js ''7440-71-3''), (js ''einsteinium'', js ''7429-92-7''),
    (js ''es'', js ''7429-92-7''), (js ''fermium'', js ''7440-72-4''),
    (js ''fm'', js ''7440-72-4''), (js ''mendelevium'', js ''7440-11-1''),
    (js ''md'', js ''7440-11-1''), (js ''nobelium'', js ''10028-14-5''),
    (js ''no'', js ''10028-14-5''), (js ''lawrencium'', js ''22537-19-5''),
    (js ''lr'', js ''22537-19-5''), (js ''rutherfordium'', js ''53850-36-5''),
    (js ''rf'', js ''53850-36-5''), (js ''dubnium'', js ''53850-35-4''),
    (js ''db'', js ''53850-35-4''), (js ''seaborgium'', js ''54038-81-2''),
    (js ''sg'', js ''54038-81-2''), (js ''bohrium'', js ''54037-14-8''),
    (js ''bh'', js ''54037-14-8''), (js ''hassium'', js ''54037-57-9''),
    (js ''hs'', js ''54037-57-9''), (js ''meitnerium'', js ''54038-01-6''),
    (js ''mt'', js ''54038-01-6''), (js ''darmstadtium'', js ''54083-77-1''),
    (js ''ds'', js ''54083-77-1''), (js ''roentgenium'', js ''54386-24-2''),
    (js ''rg'', js ''54386-24-2''), (js ''copernicium'', js ''54084-26-3''),
    (js ''cn'', js ''54084-26-3''), (js ''nihonium'', js ''54084-70-7''),
    (js ''nh'', js ''54084-70-7''), (js ''flerovium'', js ''54085-16-4''),
    (js ''fl'', js ''54085-16-4''), (js ''moscovium'', js ''54085-64-2''),
    (js ''mc'', js ''54085-64-2''), (js ''livermorium'', js ''54100-71-9''),
    (js ''lv'', js ''54100-71-9''), (js ''tennessine'', js ''87658-56-8''),
    (js ''ts'', js ''87658-56-8''), (js ''oganesson'', js ''54144-19-3''),
    (js ''og'', js ''54144-19-3'')
  ]"

text \<open>
  \<open>CAS_DATABASE[key] || null\<close> on the object literal. The one key that a lower-case name
  can share with \<open>Object.prototype\<close> is "constructor"; its value is a function, which is
  truthy and is later turned into text by \<open>String\<close>.
\<close>

definition getCasNumber :: "ustring option \<Rightarrow> ustring option" where
  "getCasNumber nameOrSymbol =
     (if \<not> truthy nameOrSymbol then None
      else (let key = trim (toLowerCase (the nameOrSymbol))
            in case map_of CAS_DATABASE key of
                 Some v \<Rightarrow> Some v
               | None \<Rightarrow>
                   if key \<in> set Object_prototype_keys
                   then Some (js ''function Object() { [native code] }'')
                   else None))"

section \<open>The encoder (src/utils/xmlGenerator.ts)\<close>

text \<open>
  \<open>generateDrmdXml\<close> writes XML text from templates, with every interpolated string passed
  through \<open>escapeXml\<close>. The model gives the tree that this text denotes: the elements of
  the templates with their attributes, and for each interpolated string a text node with the
  string itself (the parser undoes \<open>escapeXml\<close>). The white space between elements, which
  the decoder never reads, is left out.
\<close>

definition elem :: "string \<Rightarrow> node list \<Rightarrow> node" where
  "elem tag cs = Element (js tag) [] cs"

definition leaf :: "string \<Rightarrow> ustring \<Rightarrow> node" where
  "leaf tag s = Element (js tag) [] (if s = [] then [] else [Text s])"

text \<open>\<open>escapeXml\<close> of a string that may be \<open>undefined\<close>: the empty text for \<open>undefined\<close>.\<close>

definition str_of :: "ustring option \<Rightarrow> ustring" where
  "str_of s = (case s of None \<Rightarrow> [] | Some t \<Rightarrow> t)"

definition content :: "ustring \<Rightarrow> node" where
  "content s = leaf ''dcc:content'' s"

text \<open>A number in a template literal; the durations are integers.\<close>

definition show_number :: "int \<Rightarrow> ustring" where
  "show_number n = (if n < 0 then 45 # show_int (- n) else show_int n)"

definition show_bool :: "bool \<Rightarrow> ustring" where
  "show_bool b = (if b then js ''true'' else js ''false'')"

text \<open>
  The period of \<open>renderValidity\<close>: "P", the years and the months where they are not zero,
  and "P0Y" when both are.
\<close>

definition periodText :: "int \<Rightarrow> int \<Rightarrow> ustring" where
  "periodText y m =
     (let period = js ''P'' @
                   (if y \<noteq> 0 then show_number y @ js ''Y'' else []) @
                   (if m \<noteq> 0 then show_number m @ js ''M'' else [])
      in if period = js ''P'' then js ''P0Y'' else period)"

definition renderValidity :: "AdministrativeData \<Rightarrow> node list" where
  "renderValidity data =
     (if validityType data = js ''Until Revoked'' then [leaf ''drmd:untilRevoked'' (js ''true'')]
      else if validityType data = js ''Specific Time''
      then [leaf ''drmd:specificTime'' (specificTime data)]
      else if validityType data = js ''Time After Dispatch''
      then [elem ''drmd:timeAfterDispatch''
              [leaf ''drmd:dispatchDate'' (dateOfIssue data),
               leaf ''drmd:period'' (periodText (durationY data) (durationM data))]]
      else [])"

text \<open>
  The regular expression \<open>/^([\d.]+(?:[eE][+-]?\d+)?)\s*(\S.*)$/\<close> of
  \<open>renderPrimitiveQuantity\<close>, with its backtracking: the run of digits and dots is tried
  from its longest length down, for each length the exponent from its longest form down and
  then without exponent. What follows must be, after white space, a non-empty text without a
  line terminator.
\<close>

definition is_line_terminator :: "int \<Rightarrow> bool" where
  "is_line_terminator c = (c = 10 \<or> c = 13 \<or> c = 8232 \<or> c = 8233)"

definition unit_tail :: "ustring \<Rightarrow> ustring option" where
  "unit_tail t =
     (let u = dropWhile is_space t
      in if u \<noteq> [] \<and> \<not> list_ex is_line_terminator u then Some u else None)"

definition exponent_lengths :: "ustring \<Rightarrow> nat list" where
  "exponent_lengths rest =
     (case rest of
        [] \<Rightarrow> []
      | c # r \<Rightarrow>
          if c = 101 \<or> c = 69 then
            (let sg = (if r \<noteq> [] \<and> (hd r = 43 \<or> hd r = 45) then 1 else 0);
                 nd = length (takeWhile is_digit (drop sg r))
             in map (\<lambda>m. 1 + sg + m) (rev [1..<Suc nd]))
          else [])"

definition match_at :: "ustring \<Rightarrow> nat \<Rightarrow> (ustring \<times> ustring) option" where
  "match_at s n =
     (case find (\<lambda>l. unit_tail (drop (n + l) s) \<noteq> None) (exponent_lengths (drop n s) @ [0]) of
        None \<Rightarrow> None
      | Some l \<Rightarrow> Some (take (n + l) s, the (unit_tail (drop (n + l) s))))"

definition match_number_unit :: "ustring \<Rightarrow> (ustring \<times> ustring) option" where
  "match_number_unit s =
     (let run = length (takeWhile (\<lambda>c. is_digit c \<or> c = 46) s)
      in case find (\<lambda>n. match_at s n \<noteq> None) (rev [1..<Suc run]) of
           None \<Rightarrow> None
         | Some n \<Rightarrow> match_at s n)"

definition renderPrimitiveQuantity :: "ustring \<Rightarrow> node" where
  "renderPrimitiveQuantity v =
     (if v = [] \<or> v = js ''noQuantity''
      then elem ''drmd:noQuantity'' [content (js ''noQuantity'')]
      else (let fallback = elem ''drmd:noQuantity'' [content v]
            in case match_number_unit (trim v) of
                 None \<Rightarrow> fallback
               | Some (numPart, unitPart) \<Rightarrow>
                  (let dsi = convertToDSI (Some numPart) (Some unitPart)
                   in if truthy (dsiUnit dsi)
                      then elem ''drmd:real''
                             [leaf ''si:value'' (dsiValue dsi),
                              leaf ''si:unit'' (str_of (dsiUnit dsi))]
                      else fallback)))"

definition renderProducer :: "Producer \<Rightarrow> node" where
  "renderProducer pr =
     elem ''drmd:referenceMaterialProducer''
       [elem ''drmd:name'' [content (str_of (prod_name pr))],
        elem ''drmd:contact''
          ([elem ''dcc:name'' [content (str_of (prod_name pr))],
            leaf ''dcc:eMail'' (str_of (email pr)),
            leaf ''dcc:phone'' (str_of (phone pr))] @
           (if truthy (fax pr) then [leaf ''dcc:fax'' (str_of (fax pr))] else []) @
           [elem ''dcc:location''
              [leaf ''dcc:street'' (str_of (street (address pr))),
               leaf ''dcc:streetNo'' (str_of (streetNo (address pr))),
               leaf ''dcc:postCode'' (postCode (address pr)),
               leaf ''dcc:city'' (str_of (city (address pr))),
               leaf ''dcc:countryCode'' (countryCode (address pr))]])]"

definition renderPerson :: "ResponsiblePerson \<Rightarrow> node" where
  "renderPerson p =
     elem ''dcc:respPerson''
       ([elem ''dcc:person'' [elem ''dcc:name'' [content (pers_name p)]]] @
        (if pers_description p \<noteq> []
         then [elem ''dcc:description'' [content (pers_description p)]] else []) @
        [leaf ''dcc:role'' (role p),
         leaf ''dcc:mainSigner'' (show_bool (mainSigner p))])"

definition renderAdministrativeData :: "AdministrativeData \<Rightarrow> node" where
  "renderAdministrativeData a =
     elem ''drmd:administrativeData''
       ([elem ''drmd:coreData''
           [leaf ''drmd:titleOfTheDocument'' (title a),
            leaf ''drmd:uniqueIdentifier'' (uniqueIdentifier a),
            elem ''drmd:validity'' (renderValidity a)]] @
        map renderProducer (producers a) @
        (if length (responsiblePersons a) > 0
         then [elem ''drmd:respPersons'' (map renderPerson (responsiblePersons a))] else []))"

definition renderMaterial :: "Material \<Rightarrow> node" where
  "renderMaterial mat =
     elem ''drmd:material''
       ([elem ''drmd:name'' [content (str_of (mat_name mat))],
         elem ''drmd:description'' [content (str_of (mat_description mat))],
         elem ''drmd:minimumSampleSize''
           [elem ''dcc:itemQuantity'' [renderPrimitiveQuantity (minimumSampleSize mat)]]] @
        (if itemQuantities mat \<noteq> []
         then [elem ''drmd:itemQuantities''
                 [elem ''dcc:itemQuantity'' [renderPrimitiveQuantity (itemQuantities mat)]]]
         else []))"

definition renderQuantity :: "Quantity \<Rightarrow> node" where
  "renderQuantity q =
     elem ''drmd:quantity''
       ([elem ''dcc:name'' [content (str_of (q_name q))],
         elem ''si:real''
           ([leaf ''si:value'' (q_value q),
             leaf ''si:unit'' (if truthy (q_dsiUnit q) then str_of (q_dsiUnit q) else q_unit q)] @
            (if uncertainty q \<noteq> []
             then [elem ''si:measurementUncertaintyUnivariate''
                     [elem ''si:expandedMU''
                        ([leaf ''si:valueExpandedMU'' (uncertainty q)] @
                         (if coverageFactor q \<noteq> []
                          then [leaf ''si:coverageFactor'' (coverageFactor q)] else []) @
                         (if coverageProbability q \<noteq> []
                          then [leaf ''si:coverageProbability'' (coverageProbability q)]
                          else []))]]
             else []))] @
        (case getCasNumber (q_name q) of
           None \<Rightarrow> []
         | Some casNumber \<Rightarrow>
             [elem ''drmd:propertyIdentifiers''
                [elem ''drmd:propertyIdentifier''
                   [leaf ''drmd:scheme'' (js ''CAS''),
                    leaf ''drmd:value'' casNumber,
                    leaf ''drmd:link''
                      (js ''https://commonchemistry.cas.org/detail?cas_rn='' @ casNumber)]]]))"

definition renderResult :: "MeasurementResult \<Rightarrow> node" where
  "renderResult res =
     elem ''drmd:result''
       ([elem ''drmd:name''
           [content (if res_name res = [] then js ''Values'' else res_name res)]] @
        (if truthy (res_description res)
         then [elem ''drmd:description'' [content (str_of (res_description res))]] else []) @
        [elem ''drmd:data'' [elem ''drmd:list'' (map renderQuantity (quantities res))]])"

definition renderProperty :: "MaterialProperty \<Rightarrow> node" where
  "renderProperty prop =
     Element (js ''drmd:materialProperties'')
       [(js ''isCertified'',
         (case prop_isCertified prop of None \<Rightarrow> js ''undefined'' | Some b \<Rightarrow> show_bool b))]
       ([elem ''drmd:name'' [content (str_of (prop_name prop))]] @
        (if truthy (prop_description prop)
         then [elem ''drmd:description'' [content (str_of (prop_description prop))]] else []) @
        (if truthy (procedures prop)
         then [elem ''drmd:procedures''
                 [elem ''dcc:usedMethod''
                    [elem ''dcc:name'' [content (js ''Procedure'')],
                     elem ''dcc:description'' [content (str_of (procedures prop))]]]]
         else []) @
        [elem ''drmd:results'' (map renderResult (results prop))])"

definition addStatement :: "string \<Rightarrow> string \<Rightarrow> ustring \<Rightarrow> node list" where
  "addStatement tag name c =
     (if c = [] then []
      else [Element (js ''drmd:'' @ js tag) [] [elem ''dcc:name'' [content (js name)], content c]])"

definition renderStatements :: "OfficialStatements \<Rightarrow> node" where
  "renderStatements st =
     elem ''drmd:statements''
       (addStatement ''intendedUse'' ''Intended Use'' (intendedUse st) @
        addStatement ''storageInformation'' ''Storage Information'' (storageInformation st) @
        addStatement ''instructionsForHandlingAndUse'' ''Handling Instructions''
          (handlingInstructions st) @
        addStatement ''metrologicalTraceability'' ''Metrological Traceability''
          (metrologicalTraceability st) @
        addStatement ''subcontractors'' ''Subcontractors'' (subcontractors st) @
        addStatement ''referenceToCertificationReport'' ''Reference to Certification Report''
          (referenceToCertificationReport st) @
        addStatement ''healthAndSafetyInformation'' ''Health And Safety Information''
          (healthAndSafety st) @
        addStatement ''legalNotice'' ''Legal Notice'' (legalNotice st))"

definition generateDrmdXml :: "DRMD \<Rightarrow> node" where
  "generateDrmdXml data =
     Element (js ''drmd:digitalReferenceMaterialDocument'')
       [(js ''xmlns:dcc'', js ''https://ptb.de/dcc''),
        (js ''xmlns:drmd'', js ''https://example.org/drmd''),
        (js ''xmlns:si'', js ''https://ptb.de/si''),
        (js ''schemaVersion'', js ''0.3.0'')]
       ([renderAdministrativeData (administrativeData data),
         elem ''drmd:materials'' (map renderMaterial (materials data)),
         elem ''drmd:materialPropertiesList'' (map renderProperty (properties data)),
         renderStatements (official (statements data))] @
        (if truthy (generalComment data)
         then [leaf ''drmd:comment'' (str_of (generalComment data))] else []) @
        (case binaryDocument data of
           None \<Rightarrow> []
         | Some b \<Rightarrow> if bin_data b \<noteq> [] then [leaf ''drmd:document'' (bin_data b)] else []))"

text \<open>
  The tree above is the tree that the parser builds from the emitted text when every text in
  it survives writing and parsing unchanged: it has no carriage return (the parser turns it
  into a line feed), no character that XML 1.0 forbids (the text would not be
  well-formed) and no surrogate code unit, and the attached document, which is written without \<open>escapeXml\<close>, has no
  markup character. Outside these conditions the parsed tree is not modelled.
\<close>

definition xml_char :: "int \<Rightarrow> bool" where
  "xml_char c = (c = 9 \<or> c = 10 \<or> (32 \<le> c \<and> c < 55296) \<or> (57344 \<le> c \<and> c \<le> 65533))"

fun texts_of :: "node \<Rightarrow> ustring list" and texts_in :: "node list \<Rightarrow> ustring list" where
  "texts_of (Text s) = [s]"
| "texts_of (Element t as cs) = map snd as @ texts_in cs"
| "texts_in [] = []"
| "texts_in (c # cs) = texts_of c @ texts_in cs"

definition wire_exact :: "DRMD \<Rightarrow> bool" where
  "wire_exact data =
     (list_all (list_all xml_char) (texts_of (generateDrmdXml data)) \<and>
      (case binaryDocument data of
         None \<Rightarrow> True
       | Some b \<Rightarrow> 60 \<notin> set (bin_data b) \<and> 38 \<notin> set (bin_data b)))"

definition parse_generated :: "DRMD \<Rightarrow> xml_source option" where
  "parse_generated data =
     (if wire_exact data then Some (Parsable (generateDrmdXml data)) else None)"

text \<open>Encoding a document and decoding the result, where the model covers it.\<close>

definition roundtrip :: "ustring \<Rightarrow> (nat list \<Rightarrow> ustring) \<Rightarrow> DRMD \<Rightarrow> (error + DRMD) option" where
  "roundtrip today uuid data = map_option (parseDrmdXml today uuid) (parse_generated data)"

text \<open>
  A document with one producer, one material of class "steel" and one property with a
  quantity in milligram per kilogram.
\<close>

definition steel_document :: DRMD where
  "steel_document =
     (INITIAL_DRMD (js ''2025-01-01''))
       \<lparr>administrativeData :=
          (administrativeData (INITIAL_DRMD (js ''2025-01-01'')))
            \<lparr>uniqueIdentifier := js ''id-1'',
             validityType := js ''Time After Dispatch'', durationY := 1, durationM := 6,
             producers := [INITIAL_PRODUCER\<lparr>prod_name := Some (js ''BAM''),
                             email := Some (js ''info@bam.de'')\<rparr>]\<rparr>,
        materials :=
          [\<lparr>fieldCoordinates = None, sectionCoordinates = None, mat_uuid = js ''m-1'',
            mat_name = Some (js ''Steel X''), materialClass = js ''steel'',
            mat_description = Some (js ''low alloy''), itemQuantities = js ''1'',
            minimumSampleSize = js ''0.5 g'', mat_isCertified = Some True,
            materialIdentifiers = [INITIAL_ID]\<rparr>],
        properties :=
          [\<lparr>prop_uuid = js ''p-1'', prop_id = Some [], prop_name = Some (js ''Certified Values''),
            prop_isCertified = Some True, prop_description = Some [], procedures = Some [],
            results =
              [\<lparr>fieldCoordinates = None, sectionCoordinates = None, res_uuid = js ''r-1'',
                res_name = js ''Mass fraction'', res_description = Some (js ''1) dry mass''),
                quantities =
                  [INITIAL_QUANTITY\<lparr>q_uuid := js ''q-1'', q_name := Some (js ''Pb''),
                     q_value := js ''12'', q_unit := js ''mg/kg'',
                     q_dsiValue := js ''12'',
                     q_dsiUnit := Some (dsi [''milli'', ''gram'', ''kilogram'', ''tothe{-1}'']),
                     uncertainty := js ''0.4''\<rparr>]\<rparr>]\<rparr>],
        statements :=
          (statements (INITIAL_DRMD (js ''2025-01-01'')))
            \<lparr>official := (official (statements (INITIAL_DRMD (js ''2025-01-01''))))
               \<lparr>intendedUse := js ''Calibration'', storageInformation := js ''Keep dry''\<rparr>\<rparr>,
        generalComment := Some (js ''none'')\<rparr>"

section \<open>What the wire format carries of each entity\<close>

text \<open>
  The fields of an entity that the encoder writes and the decoder reads back, with a string
  that may be \<open>undefined\<close> taken as the text that is written for it.
\<close>

definition producer_view :: "Producer \<Rightarrow> ustring list" where
  "producer_view p =
     [str_of (prod_name p), str_of (email p), str_of (phone p), str_of (fax p),
      str_of (street (address p)), str_of (streetNo (address p)), postCode (address p),
      str_of (city (address p)), countryCode (address p)]"

definition person_view :: "ResponsiblePerson \<Rightarrow> ustring list \<times> bool" where
  "person_view p = ([pers_name p, role p, pers_description p], mainSigner p)"

definition material_view :: "Material \<Rightarrow> ustring list" where
  "material_view m = [str_of (mat_name m), str_of (mat_description m)]"

definition quantity_view :: "Quantity \<Rightarrow> ustring list" where
  "quantity_view q = [str_of (q_name q), q_value q, uncertainty q]"

definition result_view :: "MeasurementResult \<Rightarrow> ustring list \<times> ustring list list" where
  "result_view r =
     ([if res_name r = [] then js ''Values'' else res_name r, str_of (res_description r)],
      map quantity_view (quantities r))"

definition property_view ::
  "MaterialProperty \<Rightarrow> ustring list \<times> bool \<times> (ustring list \<times> ustring list list) list" where
  "property_view p =
     ([str_of (prop_name p), str_of (procedures p)], prop_isCertified p = Some True,
      map result_view (results p))"

definition statements_view :: "OfficialStatements \<Rightarrow> ustring list" where
  "statements_view st =
     [intendedUse st, storageInformation st, handlingInstructions st,
      metrologicalTraceability st, subcontractors st, referenceToCertificationReport st,
      healthAndSafety st, legalNotice st]"

section \<open>Properties\<close>

subsection \<open>Decimal digits\<close>

lemma digits_value_snoc: "digits_value (ds @ [d]) = 10 * digits_value ds + d"
  by (simp add: digits_value_def)

lemma dec_digits_props:
  "0 \<le> n \<Longrightarrow>
     dec_digits n \<noteq> [] \<and> (\<forall>d \<in> set (dec_digits n). 0 \<le> d \<and> d \<le> 9) \<and>
     digits_value (dec_digits n) = n"
proof (induction n rule: dec_digits.induct)
  case (1 n)
  show ?case
  proof (cases "n < 10")
    case True
    with "1.prems" show ?thesis
      by (simp add: dec_digits.simps [of n] digits_value_def)
  next
    case False
    with "1.prems" have "0 \<le> n div 10" by simp
    with "1.IH" False have ih: "dec_digits (n div 10) \<noteq> []"
      "\<forall>d \<in> set (dec_digits (n div 10)). 0 \<le> d \<and> d \<le> 9"
      "digits_value (dec_digits (n div 10)) = n div 10"
      by simp_all
    have md: "0 \<le> n mod 10" "n mod 10 \<le> 9"
      by simp_all
    show ?thesis
      using False ih md by (simp add: dec_digits.simps [of n] digits_value_snoc)
  qed
qed

lemma show_int_props:
  assumes "0 \<le> n"
  shows "show_int n \<noteq> []" "list_all is_digit (show_int n)" "parseInt_digits (show_int n) = n"
proof -
  note p = dec_digits_props [OF assms]
  show "show_int n \<noteq> []"
    using p by (simp add: show_int_def)
  show "list_all is_digit (show_int n)"
    using p by (auto simp: show_int_def is_digit_def list_all_iff)
  have "map (\<lambda>c. c - 48) (map (\<lambda>d. 48 + d) ds) = ds" for ds :: "int list"
    by (induction ds) simp_all
  then show "parseInt_digits (show_int n) = n"
    using p by (simp add: show_int_def parseInt_digits_def)
qed

subsection \<open>Rounding to a double\<close>

lemma bit_length_pos: "0 < n \<Longrightarrow> 1 \<le> bit_length n"
proof (induction n rule: bit_length.induct)
  case (1 n)
  then show ?case
    by (subst bit_length.simps) (cases "0 < n div 2"; simp add: bit_length.simps [of "n div 2"] bit_length.simps [of 0])
qed

lemma bit_length_nonneg: "0 \<le> bit_length n"
  by (cases "0 < n") (use bit_length_pos [of n] in \<open>auto simp: bit_length.simps [of n]\<close>)

lemma bit_length_bounds:
  "0 < n \<Longrightarrow> 2 ^ nat (bit_length n - 1) \<le> n \<and> n < 2 ^ nat (bit_length n)"
proof (induction n rule: bit_length.induct)
  case (1 n)
  show ?case
  proof (cases "n = 1")
    case True
    then show ?thesis
      by (simp add: bit_length.simps [of 1] bit_length.simps [of 0])
  next
    case False
    with 1 have h: "0 < n div 2" by simp
    with 1 have ih: "2 ^ nat (bit_length (n div 2) - 1) \<le> n div 2"
      "n div 2 < 2 ^ nat (bit_length (n div 2))"
      by simp_all
    have b: "bit_length n = 1 + bit_length (n div 2)"
      using 1 by (subst bit_length.simps) simp
    have p: "1 \<le> bit_length (n div 2)"
      using h by (rule bit_length_pos)
    have e1: "nat (bit_length n - 1) = Suc (nat (bit_length (n div 2) - 1))"
      using b p by simp
    have e2: "nat (bit_length n) = Suc (nat (bit_length (n div 2)))"
      using b p by simp
    show ?thesis
      unfolding e1 e2 using ih by simp linarith
  qed
qed

lemma binary_exponent_less:
  assumes "0 < n" "0 < d" "n < d * 2 ^ K"
  shows "binary_exponent n d < int K"
proof -
  let ?c = "bit_length n - bit_length d"
  show ?thesis
  proof (cases "at_least_pow2 n d ?c")
    case True
    show ?thesis
    proof (cases "0 \<le> ?c")
      case c: True
      from True c have "d * 2 ^ nat ?c \<le> n"
        by (simp add: at_least_pow2_def)
      with assms have "d * 2 ^ nat ?c < d * 2 ^ K"
        by linarith
      with assms(2) have "(2::int) ^ nat ?c < 2 ^ K"
        by simp
      then have "nat ?c < K"
        by simp
      with True c show ?thesis
        by (simp add: binary_exponent_def Let_def)
    next
      case False
      with True show ?thesis
        by (simp add: binary_exponent_def Let_def)
    qed
  next
    case False
    have n: "2 ^ nat (bit_length n - 1) \<le> n"
      using assms(1) bit_length_bounds by blast
    have d: "d < 2 ^ nat (bit_length d)"
      using assms(2) bit_length_bounds by blast
    have "d * 2 ^ K < 2 ^ nat (bit_length d) * 2 ^ K"
      using d by (intro mult_strict_right_mono) simp_all
    with n assms(3) have "(2::int) ^ nat (bit_length n - 1) < 2 ^ nat (bit_length d) * 2 ^ K"
      by linarith
    then have "(2::int) ^ nat (bit_length n - 1) < 2 ^ (nat (bit_length d) + K)"
      by (simp only: power_add)
    then have "nat (bit_length n - 1) < nat (bit_length d) + K"
      by simp
    then have "?c \<le> int K"
      using bit_length_pos [OF assms(1)] bit_length_pos [OF assms(2)] by linarith
    with False show ?thesis
      by (simp add: binary_exponent_def Let_def)
  qed
qed

lemma round_half_even_bounds:
  assumes "0 < d"
  shows "n div d \<le> round_half_even n d" and "2 * d * round_half_even n d \<le> 2 * n + d"
proof -
  show "n div d \<le> round_half_even n d"
    by (simp add: round_half_even_def Let_def)
  have "d * (2 * (n div d)) = 2 * (d * (n div d))"
    by simp
  also have "d * (n div d) = n - n mod d"
    by (rule minus_mod_eq_mult_div [symmetric])
  finally have e: "d * (2 * (n div d)) = 2 * n - 2 * (n mod d)"
    by simp
  have m: "0 \<le> n mod d"
    using assms by simp
  show "2 * d * round_half_even n d \<le> 2 * n + d"
    using m assms by (auto simp: round_half_even_def Let_def algebra_simps e)
qed

lemma div_between:
  fixes r k s :: int
  assumes "k * s \<le> r" "r < (k + 1) * s"
  shows "r div s = k"
proof -
  have s: "0 < s"
    using assms by (simp add: algebra_simps)
  have "r = s * k + (r - k * s)"
    by (simp add: algebra_simps)
  moreover have "0 \<le> r - k * s" "r - k * s < s"
    using assms by (simp_all add: algebra_simps)
  ultimately show ?thesis
    by (metis div_pos_pos_trivial div_mult_self2 add.commute add_cancel_right_left s less_irrefl)
qed

lemma to_double_zero [simp]: "to_double 0 = 0"
  by (simp add: to_double_def floor_double_def)

lemma to_double_exact:
  assumes "0 \<le> n" "n < 2 ^ 53"
  shows "to_double n = n"
proof (cases "n = 0")
  case True
  then show ?thesis
    by (simp add: to_double_def floor_double_def)
next
  case False
  with assms have pos: "0 < n" by simp
  have "binary_exponent n 1 < int 53"
    by (rule binary_exponent_less) (use pos assms in simp_all)
  then have q: "quantum n 1 \<le> 0"
    by (simp add: quantum_def)
  show ?thesis
  proof (cases "quantum n 1 = 0")
    case True
    then show ?thesis
      using assms False
      by (simp add: to_double_def floor_double_def significand_def round_half_even_def Let_def)
  next
    case False
    with q have "quantum n 1 < 0" by simp
    then show ?thesis
      using assms \<open>n \<noteq> 0\<close>
      by (simp add: to_double_def floor_double_def significand_def round_half_even_def Let_def)
  qed
qed

lemma floor_double_twelfth:
  assumes "0 < t" "t < 2 ^ 53"
  shows "floor_double t 12 = t div 12"
proof -
  have "t < 12 * 2 ^ 50"
    using assms by simp
  then have "binary_exponent t 12 < int 50"
    using assms(1) by (intro binary_exponent_less) simp_all
  then have q: "quantum t 12 \<le> - 3"
    by (simp add: quantum_def)
  define k where "k = nat (- quantum t 12)"
  have k: "3 \<le> k"
    using q by (simp add: k_def)
  define S :: int where "S = 2 ^ k"
  have "(2::int) ^ 3 \<le> 2 ^ k"
    using k by (intro power_increasing) simp_all
  then have S: "8 \<le> S"
    by (simp add: S_def)
  define r where "r = round_half_even (t * S) 12"
  have fd: "floor_double t 12 = r div S"
    using assms(1) q by (simp add: floor_double_def significand_def Let_def r_def S_def k_def)
  have lo: "(t * S) div 12 \<le> r" and hi: "2 * 12 * r \<le> 2 * (t * S) + 12"
    unfolding r_def by (rule round_half_even_bounds; simp)+
  have t: "t = 12 * (t div 12) + t mod 12"
    by simp
  have m: "0 \<le> t mod 12" "t mod 12 \<le> 11"
    by simp_all
  have ts: "t * S = 12 * ((t div 12) * S) + (t mod 12) * S"
    using arg_cong [OF t, of "\<lambda>x. x * S"] by (simp only: distrib_right mult.assoc)
  have ms: "0 \<le> (t mod 12) * S" "(t mod 12) * S \<le> 11 * S"
    using m S by (simp_all add: mult_right_mono)
  have "(t div 12) * S \<le> (t * S) div 12"
    using ms(1) by (subst ts) (simp add: div_mult_self4 pos_imp_zdiv_nonneg_iff)
  with lo have low: "(t div 12) * S \<le> r"
    by simp
  have "12 * r \<le> 12 * ((t div 12) * S) + (t mod 12) * S + 6"
    using hi ts by simp
  with ms S have "12 * r < 12 * ((t div 12) * S) + 12 * S"
    by linarith
  then have high: "r < (t div 12 + 1) * S"
    by (simp add: algebra_simps)
  show ?thesis
    unfolding fd using low high by (rule div_between)
qed

subsection \<open>The carry of months into years\<close>

text \<open>
  C6, as amended. For a payload whose validity is "Time After Dispatch" and for all
  non-negative integers \<open>years\<close> and \<open>months\<close> whose total \<open>years * 12 + months\<close> is below
  \<open>2 ^ 53\<close>, the carry normalization yields \<open>resultYears\<close> and \<open>resultMonths\<close> with
  \<open>0 \<le> resultMonths \<le> 11\<close> and
  \<open>resultYears * 12 + resultMonths = years * 12 + months\<close>.
\<close>

theorem C6_round_months:
  assumes "x_validityType a = Some (js ''Time After Dispatch'')"
    and "x_durationY a = Some years" and "x_durationM a = Some months"
    and "0 \<le> years" and "0 \<le> months" and "years * 12 + months < 2 ^ 53"
  shows "\<exists>resultYears resultMonths.
           x_durationY (normalizeValidityDuration a) = Some resultYears \<and>
           x_durationM (normalizeValidityDuration a) = Some resultMonths \<and>
           0 \<le> resultMonths \<and> resultMonths \<le> 11 \<and> 0 \<le> resultYears \<and>
           resultYears * 12 + resultMonths = years * 12 + months"
proof -
  have y: "to_double (years * 12) = years * 12"
    using assms by (intro to_double_exact) simp_all
  have t: "to_double (years * 12 + months) = years * 12 + months"
    using assms by (intro to_double_exact) simp_all
  show ?thesis
  proof (cases "years * 12 + months > 0")
    case True
    then have "floor_double (years * 12 + months) 12 = (years * 12 + months) div 12"
      using assms by (intro floor_double_twelfth) simp_all
    with True show ?thesis
      using assms by (simp add: normalizeValidityDuration_def num_or_zero_def Let_def y t)
  next
    case False
    with assms have "years = 0" "months = 0" by auto
    then show ?thesis
      using assms by (simp add: normalizeValidityDuration_def num_or_zero_def Let_def y t)
  qed
qed

theorem C6_round_months_witness:
  "\<exists>resultYears resultMonths.
     x_durationY (normalizeValidityDuration
        \<lparr>x_validityType = Some (js ''Time After Dispatch''),
         x_durationY = Some 1, x_durationM = Some 30\<rparr>) = Some resultYears \<and>
     x_durationM (normalizeValidityDuration
        \<lparr>x_validityType = Some (js ''Time After Dispatch''),
         x_durationY = Some 1, x_durationM = Some 30\<rparr>) = Some resultMonths \<and>
     0 \<le> resultMonths \<and> resultMonths \<le> 11 \<and> 0 \<le> resultYears \<and>
     resultYears * 12 + resultMonths = 1 * 12 + 30"
  using C6_round_months
    [of "\<lparr>x_validityType = Some (js ''Time After Dispatch''),
          x_durationY = Some 1, x_durationM = Some 30\<rparr>" 1 30]
  by simp

text \<open>
  C6, as stated, holds for all non-negative integers and for every payload. A payload whose
  validity is not "Time After Dispatch" is not normalized: 14 months stay 14 months. And for
  900719925474099 years and 1 month the sum of the months is not a double: it is rounded to
  10808639105689188, and the result is 900719925474099 years and 0 months, one month less.
\<close>

theorem C6_counterexample:
  "x_durationM (normalizeValidityDuration
      \<lparr>x_validityType = Some (js ''Until Revoked''),
       x_durationY = Some 0, x_durationM = Some 14\<rparr>) = Some 14 \<and>
   x_durationY (normalizeValidityDuration
      \<lparr>x_validityType = Some (js ''Time After Dispatch''),
       x_durationY = Some 900719925474099, x_durationM = Some 1\<rparr>) = Some 900719925474099 \<and>
   x_durationM (normalizeValidityDuration
      \<lparr>x_validityType = Some (js ''Time After Dispatch''),
       x_durationY = Some 900719925474099, x_durationM = Some 1\<rparr>) = Some 0 \<and>
   (900719925474099 :: int) * 12 + 0 \<noteq> 900719925474099 * 12 + 1"
  by code_simp

subsection \<open>The unit converter on the literal test vectors\<close>

text \<open>
  C2. \<open>convertToDSI("4.9", "g")\<close> returns the gram symbol with \<open>dsiValue\<close> "4.9",
  \<open>convertToDSI("2", "lb")\<close> returns kilogram with "0.907185", and an unknown unit returns
  two empty strings.
\<close>

theorem C2_literal_vectors:
  "convertToDSI_rev (Some (js ''4.9'')) (Some (js ''g'')) =
     \<lparr>dsiValue = js ''4.9'', dsiUnit = Some (dsi [''gram''])\<rparr> \<and>
   convertToDSI_rev (Some (js ''2'')) (Some (js ''lb'')) =
     \<lparr>dsiValue = js ''0.907185'', dsiUnit = Some (dsi [''kilogram''])\<rparr> \<and>
   convertToDSI_rev (Some (js ''1'')) (Some (js ''unknownunit'')) =
     \<lparr>dsiValue = [], dsiUnit = Some []\<rparr>"
  by code_simp

subsection \<open>Factor 1 keeps the text of the value\<close>

text \<open>
  C3. For every value string and every unit that resolves to a table entry with factor 1,
  \<open>dsiValue\<close> is the trimmed value string, whether or not it parses as a number; and
  \<open>convertToDSI("<0.05", "mg/kg")\<close> returns "<0.05" with the mass-fraction symbol.
\<close>

theorem C3_factor_one_keeps_trimmed_text:
  "(fst (findConversion UNIT_MAP_rev u) = Own c \<and> dec_is_one (conv_factor c) \<longrightarrow>
      convertToDSI_rev (Some v) (Some u) =
        \<lparr>dsiValue = trim v, dsiUnit = Some (conv_dsiUnit c)\<rparr>) \<and>
   convertToDSI_rev (Some (js ''<0.05'')) (Some (js ''mg/kg'')) =
     \<lparr>dsiValue = js ''<0.05'',
      dsiUnit = Some (dsi [''milli'', ''gram'', ''kilogram'', ''tothe{-1}''])\<rparr>"
proof -
  have "convertToDSI_rev (Some v) (Some u) =
      \<lparr>dsiValue = trim v, dsiUnit = Some (conv_dsiUnit c)\<rparr>"
    if "fst (findConversion UNIT_MAP_rev u) = Own c" "dec_is_one (conv_factor c)"
    using that
    by (cases "findConversion UNIT_MAP_rev u") (simp add: convertToDSI_rev_def Let_def)
  moreover have "convertToDSI_rev (Some (js ''<0.05'')) (Some (js ''mg/kg'')) =
     \<lparr>dsiValue = js ''<0.05'',
      dsiUnit = Some (dsi [''milli'', ''gram'', ''kilogram'', ''tothe{-1}''])\<rparr>"
    by code_simp
  ultimately show ?thesis
    by blast
qed

theorem C3_factor_one_keeps_trimmed_text_witness:
  "convertToDSI_rev (Some (js '' < 0.05 (n=3) '')) (Some (js ''in g/kg'')) =
     \<lparr>dsiValue = js ''< 0.05 (n=3)'',
      dsiUnit = Some (dsi [''gram'', ''kilogram'', ''tothe{-1}''])\<rparr>"
proof -
  have f: "fst (findConversion UNIT_MAP_rev (js ''in g/kg'')) =
      Own \<lparr>conv_dsiUnit = dsi [''gram'', ''kilogram'', ''tothe{-1}''], conv_factor = (1, 0)\<rparr>"
    by code_simp
  have o: "dec_is_one (conv_factor
      \<lparr>conv_dsiUnit = dsi [''gram'', ''kilogram'', ''tothe{-1}''], conv_factor = (1, 0)\<rparr>)"
    by (simp add: dec_is_one_def)
  have t: "trim (js '' < 0.05 (n=3) '') = js ''< 0.05 (n=3)''"
    by code_simp
  show ?thesis
    using C3_factor_one_keeps_trimmed_text
      [of "js ''in g/kg''"
          "\<lparr>conv_dsiUnit = dsi [''gram'', ''kilogram'', ''tothe{-1}''], conv_factor = (1, 0)\<rparr>"
          "js '' < 0.05 (n=3) ''"] f o
    unfolding t by simp
qed

subsection \<open>White space, superscripts and the lookup of a unit\<close>

lemma dropWhile_unchanged: "xs = [] \<or> \<not> P (hd xs) \<Longrightarrow> dropWhile P xs = xs"
  by (cases xs) auto

lemma trim_unchanged:
  assumes "s = [] \<or> (\<not> is_space (hd s) \<and> \<not> is_space (last s))"
  shows "trim s = s"
proof (cases "s = []")
  case True
  then show ?thesis by (simp add: trim_def)
next
  case False
  with assms have h: "\<not> is_space (hd s)" and l: "\<not> is_space (last s)" by auto
  have 1: "dropWhile is_space s = s"
    using h by (intro dropWhile_unchanged) simp
  have "hd (rev s) = last s"
    using False by (simp add: hd_rev)
  then have 2: "dropWhile is_space (rev s) = rev s"
    using l by (intro dropWhile_unchanged) simp
  show ?thesis
    by (simp add: trim_def 1 2)
qed

lemma trim_ends:
  assumes "trim s \<noteq> []"
  shows "\<not> is_space (hd (trim s))" and "\<not> is_space (last (trim s))"
proof -
  define t where "t = dropWhile is_space s"
  define u where "u = dropWhile is_space (rev t)"
  have tr: "trim s = rev u"
    by (simp add: trim_def t_def u_def)
  with assms have u: "u \<noteq> []" by simp
  then have t: "t \<noteq> []"
    by (auto simp: u_def)
  have "\<not> is_space (hd u)"
    using u unfolding u_def by (rule hd_dropWhile)
  then show "\<not> is_space (last (trim s))"
    using u by (simp add: tr last_rev)
  have "rev t = takeWhile is_space (rev t) @ u"
    by (simp add: u_def)
  then have "last (rev t) = last u"
    using u by (metis last_appendR)
  then have "last u = hd t"
    using t by (simp add: last_rev)
  moreover have "\<not> is_space (hd t)"
    using t unfolding t_def by (rule hd_dropWhile)
  ultimately show "\<not> is_space (hd (trim s))"
    using u by (simp add: tr hd_rev)
qed

lemma trim_idem: "trim (trim s) = trim s"
  by (rule trim_unchanged) (use trim_ends [of s] in blast)

lemma trim_no_space:
  assumes "\<forall>c\<in>set s. \<not> is_space c"
  shows "trim s = s"
  by (rule trim_unchanged) (use assms hd_in_set [of s] last_in_set [of s] in blast)

lemma replace_unit_absent: "c \<notin> set s \<Longrightarrow> replace_unit c r s = s"
  by (induction s) (simp_all add: replace_unit_def)

lemma replace_pair_absent: "a \<notin> set s \<Longrightarrow> replace_pair a b r s = s"
  by (induction a b r s rule: replace_pair.induct) simp_all

lemma set_replace_unit: "set (replace_unit c r s) \<subseteq> (set s - {c}) \<union> set r"
  by (induction s) (auto simp: replace_unit_def)

lemma set_replace_pair: "set (replace_pair a b r s) \<subseteq> set s \<union> set r"
  by (induction a b r s rule: replace_pair.induct) auto

lemma set_superscripts_to_ascii:
  "set (superscripts_to_ascii s) \<subseteq> (set s \<union> {45, 49, 50, 51}) - {8315, 185, 178, 179}"
proof -
  let ?a = "replace_pair 8315 185 (js ''-1'') s"
  let ?b = "replace_unit 8315 (js ''-'') ?a"
  let ?c = "replace_unit 185 (js ''1'') ?b"
  let ?d = "replace_unit 178 (js ''2'') ?c"
  have a: "set ?a \<subseteq> set s \<union> {45, 49}"
    using set_replace_pair [of 8315 185 "js ''-1''" s] by auto
  have b: "set ?b \<subseteq> (set s \<union> {45, 49}) - {8315}"
    using set_replace_unit [of 8315 "js ''-''" ?a] a by auto
  have c: "set ?c \<subseteq> (set s \<union> {45, 49}) - {8315, 185}"
    using set_replace_unit [of 185 "js ''1''" ?b] b by auto
  have d: "set ?d \<subseteq> (set s \<union> {45, 49, 50}) - {8315, 185, 178}"
    using set_replace_unit [of 178 "js ''2''" ?c] c by auto
  show ?thesis
    unfolding superscripts_to_ascii_def
    using set_replace_unit [of 179 "js ''3''" ?d] d by auto
qed

lemma superscripts_to_ascii_idem:
  "superscripts_to_ascii (superscripts_to_ascii s) = superscripts_to_ascii s"
proof -
  let ?t = "superscripts_to_ascii s"
  have "8315 \<notin> set ?t" "185 \<notin> set ?t" "178 \<notin> set ?t" "179 \<notin> set ?t"
    using set_superscripts_to_ascii [of s] by auto
  then show ?thesis
    by (subst (1) superscripts_to_ascii_def)
       (simp add: replace_unit_absent replace_pair_absent)
qed

lemma superscripts_to_ascii_no_space:
  assumes "\<forall>c\<in>set s. \<not> is_space c"
  shows "\<forall>c\<in>set (superscripts_to_ascii s). \<not> is_space c"
proof -
  have "\<not> is_space 45" "\<not> is_space 49" "\<not> is_space 50" "\<not> is_space 51"
    by (simp_all add: is_space_def)
  then show ?thesis
    using assms set_superscripts_to_ascii [of s] by auto
qed

lemma hd_toLowerCase:
  assumes "k \<noteq> []"
  shows "hd (toLowerCase k) = 92 \<longleftrightarrow> hd k = 92"
proof -
  obtain c r where k: "k = c # r"
    using assms by (cases k) auto
  show ?thesis
    by (auto simp: k toLowerCase_def lower_unit_def)
qed

lemma table_keys:
  "list_all (\<lambda>k. k = 92 # js ''one'' \<or> (k \<noteq> [] \<and> hd k \<noteq> 92)) (map fst UNIT_MAP_rev)"
  by (simp add: UNIT_MAP_rev_def)

lemma prototype_keys:
  "list_all (\<lambda>k. k \<noteq> [] \<and> hd k \<noteq> 92) Object_prototype_keys"
  by (simp add: Object_prototype_keys_def)

lemma lookup_unit_backslash:
  assumes "u \<noteq> []" "hd u = 92" "u \<noteq> 92 # js ''one''" "toLowerCase u \<noteq> 92 # js ''one''"
  shows "lookup_unit UNIT_MAP_rev u = Absent"
proof -
  have keys: "k = 92 # js ''one'' \<or> (k \<noteq> [] \<and> hd k \<noteq> 92)" if "k \<in> set (map fst UNIT_MAP_rev)" for k
    using table_keys that unfolding list_all_iff by blast
  have "u \<notin> set (map fst UNIT_MAP_rev)"
    using keys [of u] assms by auto
  then have m: "map_of UNIT_MAP_rev u = None"
    by (simp add: map_of_eq_None_iff)
  have p: "u \<notin> set Object_prototype_keys"
    using prototype_keys assms unfolding list_all_iff by blast
  have lower_one: "toLowerCase (92 # js ''one'') = 92 # js ''one''"
    by (simp add: toLowerCase_def lower_unit_def)
  have "toLowerCase k \<noteq> toLowerCase u" if "k \<in> set (map fst UNIT_MAP_rev)" for k
  proof (cases "k = 92 # js ''one''")
    case True
    then show ?thesis
      using assms(4) lower_one by simp
  next
    case False
    with keys [OF that] have "k \<noteq> []" "hd k \<noteq> 92"
      by auto
    then have "hd (toLowerCase k) \<noteq> 92"
      by (simp add: hd_toLowerCase)
    moreover have "hd (toLowerCase u) = 92"
      using assms by (simp add: hd_toLowerCase)
    ultimately show ?thesis
      by auto
  qed
  then have f: "find (\<lambda>k. toLowerCase k = toLowerCase u) (map fst UNIT_MAP_rev) = None"
    unfolding find_None_iff by blast
  show ?thesis
    by (simp add: lookup_unit_def get_property_def m p f)
qed

lemma clean_unit_unchanged:
  assumes "u \<noteq> []" "hd u = 92" "\<forall>c\<in>set u. \<not> is_space c"
  shows "filter (\<lambda>c. \<not> is_space c) (trim (strip_in_prefix u)) = u"
proof -
  obtain r where u: "u = 92 # r"
    using assms by (cases u) auto
  have "\<not> is_space 92"
    by (simp add: is_space_def)
  then have "strip_in_prefix u = u"
    by (simp add: strip_in_prefix_def u split: list.splits)
  then show ?thesis
    using assms(3) by (simp add: trim_no_space)
qed

lemma settled_backslash:
  assumes "u \<noteq> []" "hd u = 92" "\<forall>c\<in>set u. \<not> is_space c"
    and "superscripts_to_ascii u = u" and "lookup_unit UNIT_MAP_rev u = Absent"
  shows "settled_unit u"
  using assms by (simp add: settled_unit_def findConversion_def clean_unit_unchanged Let_def)

lemma table_units:
  "list_all (\<lambda>(k, c). conv_dsiUnit c \<noteq> [] \<and> hd (conv_dsiUnit c) = 92 \<and>
      list_all (\<lambda>x. \<not> is_space x \<and> x \<notin> {8315, 185, 178, 179}) (conv_dsiUnit c) \<and>
      (conv_dsiUnit c = 92 # js ''one'' \<or> toLowerCase (conv_dsiUnit c) \<noteq> 92 # js ''one''))
    UNIT_MAP_rev"
  by code_simp

lemma one_settled: "settled_unit (92 # js ''one'')"
  by code_simp

lemma table_units_settled:
  assumes "(k, c) \<in> set UNIT_MAP_rev"
  shows "settled_unit (conv_dsiUnit c)"
proof (cases "conv_dsiUnit c = 92 # js ''one''")
  case True
  then show ?thesis
    using one_settled by simp
next
  case False
  let ?u = "conv_dsiUnit c"
  from table_units assms have u: "?u \<noteq> []" "hd ?u = 92"
    "\<forall>x\<in>set ?u. \<not> is_space x \<and> x \<notin> {8315, 185, 178, 179}"
    "toLowerCase ?u \<noteq> 92 # js ''one''"
    using False unfolding list_all_iff by blast+
  have "8315 \<notin> set ?u" "185 \<notin> set ?u" "178 \<notin> set ?u" "179 \<notin> set ?u"
    using u(3) by auto
  then have "superscripts_to_ascii ?u = ?u"
    by (simp add: superscripts_to_ascii_def replace_unit_absent replace_pair_absent)
  moreover have "lookup_unit UNIT_MAP_rev ?u = Absent"
    using u False by (intro lookup_unit_backslash) simp_all
  ultimately show ?thesis
    using u by (intro settled_backslash) simp_all
qed

lemma findConversion_Own:
  assumes "findConversion tbl u = (Own c, cu)"
  shows "\<exists>k. (k, c) \<in> set tbl"
proof -
  have g: "\<exists>k. (k, c) \<in> set tbl" if "get_property tbl k = Own c" for k
    using that by (auto simp: get_property_def split: option.splits if_splits dest: map_of_SomeD)
  have l: "\<exists>k. (k, c) \<in> set tbl" if "lookup_unit tbl k = Own c" for k
    using that g by (auto simp: lookup_unit_def split: lookup.splits option.splits)
  show ?thesis
    using assms l by (auto simp: findConversion_def Let_def split: lookup.splits)
qed

lemma findConversion_no_space:
  "\<forall>c\<in>set (snd (findConversion tbl u)). \<not> is_space c"
proof -
  let ?cl = "filter (\<lambda>c. \<not> is_space c) (trim (strip_in_prefix u))"
  have a: "\<forall>c\<in>set ?cl. \<not> is_space c"
    by simp
  then have b: "\<forall>c\<in>set (superscripts_to_ascii ?cl). \<not> is_space c"
    by (rule superscripts_to_ascii_no_space)
  have "snd (findConversion tbl u) = ?cl \<or> snd (findConversion tbl u) = superscripts_to_ascii ?cl"
    by (simp add: findConversion_def Let_def split: lookup.splits)
  then show ?thesis
    using a b by metis
qed

lemma findConversion_Absent:
  assumes "findConversion tbl u = (Absent, cu)"
  shows "lookup_unit tbl cu = Absent" and "superscripts_to_ascii cu = cu"
  using assms
  by (auto simp: findConversion_def Let_def superscripts_to_ascii_idem split: lookup.splits)

lemma passed_unit_settled:
  assumes "findConversion UNIT_MAP_rev u = (Absent, cu)" "cu \<noteq> []" "hd cu = 92"
  shows "settled_unit cu"
proof -
  have "\<forall>c\<in>set cu. \<not> is_space c"
    using findConversion_no_space [of UNIT_MAP_rev u] assms(1) by simp
  then show ?thesis
    using assms findConversion_Absent [OF assms(1)] by (intro settled_backslash)
qed

lemma convertToDSI_rev_settled:
  assumes "settled_unit u"
  shows "convertToDSI_rev (Some v) (Some u) = \<lparr>dsiValue = trim v, dsiUnit = Some u\<rparr>"
proof (cases "findConversion UNIT_MAP_rev u")
  case (Pair cv cu)
  then show ?thesis
    using assms
    by (cases cv) (auto simp: settled_unit_def convertToDSI_rev_def Let_def dec_is_one_def)
qed

subsection \<open>The printed number has no white space\<close>

lemma foldl_digits_ge:
  fixes a :: int
  assumes "\<forall>d\<in>set ds. 0 \<le> d" "0 \<le> a"
  shows "a \<le> foldl (\<lambda>a d. 10 * a + d) a ds"
  using assms
proof (induction ds arbitrary: a)
  case Nil
  then show ?case by simp
next
  case (Cons d ds)
  then have "10 * a + d \<le> foldl (\<lambda>a d. 10 * a + d) (10 * a + d) ds"
    by (intro Cons.IH) simp_all
  with Cons.prems show ?case
    by simp
qed

lemma digits_value_pos:
  assumes "ds \<noteq> []" "1 \<le> hd ds" "\<forall>d\<in>set ds. 0 \<le> d"
  shows "1 \<le> digits_value ds"
proof -
  obtain d r where ds: "ds = d # r"
    using assms(1) by (cases ds) auto
  have "d \<le> foldl (\<lambda>a d. 10 * a + d) d r"
    using assms ds by (intro foldl_digits_ge) simp_all
  then show ?thesis
    using assms(2) by (simp add: ds digits_value_def)
qed

lemma hd_dec_digits:
  "0 < n \<Longrightarrow> 1 \<le> hd (dec_digits n)"
proof (induction n rule: dec_digits.induct)
  case (1 n)
  show ?case
  proof (cases "n < 10")
    case True
    with "1.prems" show ?thesis
      by (simp add: dec_digits.simps [of n])
  next
    case False
    then have "0 < n div 10" by simp
    with "1.IH" False have "1 \<le> hd (dec_digits (n div 10))"
      by simp
    moreover have "dec_digits (n div 10) \<noteq> []"
      using dec_digits_props [of "n div 10"] \<open>0 < n div 10\<close> by simp
    ultimately show ?thesis
      using False by (simp add: dec_digits.simps [of n])
  qed
qed

lemma round6_digits:
  assumes "0 < a"
  shows "fst (round6 a) \<noteq> []" and "\<forall>d\<in>set (fst (round6 a)). 0 \<le> d \<and> d \<le> 9"
    and "1 \<le> hd (fst (round6 a))"
proof -
  let ?ds = "dec_digits a"
  note p = dec_digits_props [of a] hd_dec_digits [OF assms]
  have n: "1 \<le> digits_value (take 6 ?ds)" if "6 < length ?ds"
  proof (rule digits_value_pos)
    show "take 6 ?ds \<noteq> []"
      using that by auto
    show "1 \<le> hd (take 6 ?ds)"
      using p that by (cases ?ds) auto
    show "\<forall>d\<in>set (take 6 ?ds). 0 \<le> d"
      using p assms by (auto dest: in_set_takeD)
  qed
  have r: "fst (round6 a) = ?ds \<or>
      (6 < length ?ds \<and> (fst (round6 a) = dec_digits (digits_value (take 6 ?ds)) \<or>
        fst (round6 a) = dec_digits (digits_value (take 6 ?ds) + 1)))"
    by (auto simp: round6_def Let_def)
  have q: "dec_digits k \<noteq> [] \<and> (\<forall>d\<in>set (dec_digits k). 0 \<le> d \<and> d \<le> 9) \<and> 1 \<le> hd (dec_digits k)"
    if "0 < k" for k
    using dec_digits_props [of k] hd_dec_digits [of k] that by simp
  from r n q [of a] q [of "digits_value (take 6 ?ds)"] q [of "digits_value (take 6 ?ds) + 1"] assms
  have "fst (round6 a) \<noteq> [] \<and> (\<forall>d\<in>set (fst (round6 a)). 0 \<le> d \<and> d \<le> 9) \<and>
      1 \<le> hd (fst (round6 a))"
    by (elim disjE conjE) simp_all
  then show "fst (round6 a) \<noteq> []" and "\<forall>d\<in>set (fst (round6 a)). 0 \<le> d \<and> d \<le> 9"
    and "1 \<le> hd (fst (round6 a))"
    by simp_all
qed

lemma layout_no_space:
  assumes "ds \<noteq> []" "\<forall>d\<in>set ds. 0 \<le> d \<and> d \<le> 9"
  shows "\<forall>c\<in>set (layout ds n). \<not> is_space c"
proof -
  define good :: "int \<Rightarrow> bool" where "good c = (c \<in> {43, 45, 46, 101} \<or> (48 \<le> c \<and> c \<le> 57))" for c
  have g: "\<not> is_space c" if "good c" for c
    using that by (auto simp: good_def is_space_def)
  let ?cs = "map (\<lambda>d. 48 + d) ds"
  have cs: "\<forall>c\<in>set ?cs. good c"
    using assms(2) by (auto simp: good_def)
  have hd: "good (hd ?cs)"
    using cs assms(1) by (metis hd_in_set map_is_Nil_conv)
  have tl: "\<forall>c\<in>set (tl ?cs). good c"
    using cs by (metis list.set_sel(2) tl_Nil empty_iff empty_set)
  have tk: "\<forall>c\<in>set (take j ?cs). good c" "\<forall>c\<in>set (drop j ?cs). good c" for j
    using cs set_take_subset [of j ?cs] set_drop_subset [of j ?cs] by blast+
  have ex: "\<forall>c\<in>set (show_int \<bar>n - 1\<bar>). good c"
    using show_int_props(2) [of "\<bar>n - 1\<bar>"] by (auto simp: list_all_iff is_digit_def good_def)
  have lit: "good 43" "good 45" "good 46" "good 48" "good 101"
    by (simp_all add: good_def)
  have "\<forall>c\<in>set (layout ds n). good c"
    unfolding layout_def Let_def
    using cs hd tl tk ex lit by (simp add: ball_Un)
  then show ?thesis
    using g by blast
qed

lemma format6_no_space: "\<forall>c\<in>set (format6 x). \<not> is_space c"
proof (cases x)
  case NaN
  then show ?thesis
    by (simp add: format6_def is_space_def)
next
  case (Num d)
  obtain m e where d: "d = (m, e)" by (cases d)
  show ?thesis
  proof (cases "m = 0")
    case True
    then show ?thesis
      by (simp add: Num d format6_def is_space_def)
  next
    case False
    then have a: "0 < \<bar>m\<bar>" by simp
    obtain ds sh where r: "round6 \<bar>m\<bar> = (ds, sh)" by (cases "round6 \<bar>m\<bar>")
    note p = round6_digits [OF a, unfolded r fst_conv]
    let ?zs = "length (takeWhile (\<lambda>d. d = 0) (rev ds))"
    let ?ds' = "take (length ds - ?zs) ds"
    have "hd ds \<in> set ds"
      using p(1) by simp
    then have "\<exists>d\<in>set (rev ds). d \<noteq> 0"
      using p(3) by (intro bexI [of _ "hd ds"]) simp_all
    then have "\<not> (\<forall>d\<in>set (rev ds). d = 0)"
      by blast
    then have "takeWhile (\<lambda>d. d = 0) (rev ds) \<noteq> rev ds"
      by (metis (mono_tags, lifting) takeWhile_eq_all_conv)
    then have "?zs < length ds"
      by (metis length_rev length_takeWhile_le le_neq_implies_less takeWhile_eq_take take_all_iff order_refl)
    then have ne: "?ds' \<noteq> []"
      using p(1) by simp
    have dg: "\<forall>d\<in>set ?ds'. 0 \<le> d \<and> d \<le> 9"
      using p(2) by (auto dest: in_set_takeD)
    have "\<not> is_space 45"
      by (simp add: is_space_def)
    then show ?thesis
      using layout_no_space [OF ne dg] False
      by (auto simp: Num d format6_def r Let_def)
  qed
qed

subsection \<open>Converting a converted pair again\<close>

lemma convertToDSI_rev_value_trimmed:
  "trim (dsiValue (convertToDSI_rev v u)) = dsiValue (convertToDSI_rev v u)"
proof -
  have f: "trim (format6 x) = format6 x" for x
    by (rule trim_no_space) (rule format6_no_space)
  have e: "trim [] = []"
    by (simp add: trim_def)
  show ?thesis
    by (simp add: convertToDSI_rev_def no_result_def Let_def f e trim_idem
        split: option.splits lookup.splits prod.splits)
qed

lemma convertToDSI_rev_unit_settled:
  assumes "dsiUnit (convertToDSI_rev v u) = Some du"
  shows "settled_unit du \<or> convertToDSI_rev v u = no_result"
proof (cases u)
  case None
  then show ?thesis
    by (simp add: convertToDSI_rev_def)
next
  case (Some su)
  obtain cv cu where f: "findConversion UNIT_MAP_rev su = (cv, cu)"
    by (cases "findConversion UNIT_MAP_rev su")
  show ?thesis
  proof (cases cv)
    case (Own c)
    then obtain k where "(k, c) \<in> set UNIT_MAP_rev"
      using findConversion_Own f by blast
    then have "settled_unit (conv_dsiUnit c)"
      by (rule table_units_settled)
    moreover have "du = conv_dsiUnit c"
      using assms by (simp add: convertToDSI_rev_def Some f Own Let_def)
    ultimately show ?thesis
      by simp
  next
    case Inherited
    then show ?thesis
      using assms by (simp add: convertToDSI_rev_def Some f Let_def)
  next
    case Absent
    show ?thesis
    proof (cases "cu \<noteq> [] \<and> hd cu = 92")
      case True
      then have "settled_unit cu"
        using f Absent by (intro passed_unit_settled [of su]) simp_all
      moreover have "du = cu"
        using assms True by (simp add: convertToDSI_rev_def Some f Absent Let_def)
      ultimately show ?thesis
        by simp
    next
      case False
      then show ?thesis
        by (auto simp: convertToDSI_rev_def Some f Absent Let_def)
    qed
  qed
qed

lemma convertToDSI_rev_no_result:
  "convertToDSI_rev (Some []) (Some []) = no_result"
  by code_simp

text \<open>
  C4. Unit conversion is idempotent: when a conversion yields a D-SI unit, converting the
  value and the unit of the result again returns that same result. (The unit of a result is
  a table unit or a unit that starts with a backslash; either is found again with factor 1,
  and the value of a result has no white space around it.)
\<close>

theorem C4_conversion_idempotent:
  assumes "dsiUnit (convertToDSI_rev v u) = Some du"
  shows "convertToDSI_rev (Some (dsiValue (convertToDSI_rev v u))) (Some du) =
    convertToDSI_rev v u"
proof -
  consider "settled_unit du" | "convertToDSI_rev v u = no_result"
    using convertToDSI_rev_unit_settled [OF assms] by blast
  then show ?thesis
  proof cases
    case 1
    then have "convertToDSI_rev (Some (dsiValue (convertToDSI_rev v u))) (Some du) =
        \<lparr>dsiValue = trim (dsiValue (convertToDSI_rev v u)), dsiUnit = Some du\<rparr>"
      by (rule convertToDSI_rev_settled)
    then show ?thesis
      using assms by (simp add: convertToDSI_rev_value_trimmed)
  next
    case 2
    then show ?thesis
      using assms convertToDSI_rev_no_result by (simp add: no_result_def)
  qed
qed

theorem C4_conversion_idempotent_witness:
  "convertToDSI_rev (Some (js ''2'')) (Some (js ''lb'')) =
     \<lparr>dsiValue = js ''0.907185'', dsiUnit = Some (dsi [''kilogram''])\<rparr> \<and>
   convertToDSI_rev (Some (js ''0.907185'')) (Some (dsi [''kilogram''])) =
     \<lparr>dsiValue = js ''0.907185'', dsiUnit = Some (dsi [''kilogram''])\<rparr>"
proof -
  have r: "convertToDSI_rev (Some (js ''2'')) (Some (js ''lb'')) =
     \<lparr>dsiValue = js ''0.907185'', dsiUnit = Some (dsi [''kilogram''])\<rparr>"
    by code_simp
  show ?thesis
    using C4_conversion_idempotent [of "Some (js ''2'')" "Some (js ''lb'')" "dsi [''kilogram'']"]
    unfolding r by simp
qed

subsection \<open>The validator on the producer list\<close>

lemma forEach_indexed_single: "forEach_indexed f [x] = f 0 x"
  by (simp add: forEach_indexed_def)

lemma material_issues_sect:
  "sect x \<noteq> js ''Materials'' \<Longrightarrow> x \<notin> set (forEach_indexed material_issues ms)"
  by (auto simp: forEach_indexed_def material_issues_def issue_def split: if_splits)

text \<open>
  C7, as amended. The validator reports an error when the producer list is empty and an error
  when it holds more than one producer; when it holds exactly one producer and the name of
  that producer is empty, it reports that the name of producer 1 is required. With more than
  one producer the names are not checked: no error about the name of a producer is reported,
  whatever its number, and the errors stay the same when the names are replaced.
\<close>

theorem C7_producer_errors:
  "(producers (administrativeData d) = [] \<longrightarrow>
      issue ''Administrative'' (js ''At least one Producer is required.'')
        \<in> set (errors (getValidationReport d))) \<and>
   (length (producers (administrativeData d)) > 1 \<longrightarrow>
      issue ''Administrative'' (js ''Only ONE Producer is allowed by schema.'')
        \<in> set (errors (getValidationReport d))) \<and>
   (producers (administrativeData d) = [p] \<and> \<not> truthy (prod_name p) \<longrightarrow>
      issue ''Administrative'' (js ''Producer 1: Name is required.'')
        \<in> set (errors (getValidationReport d))) \<and>
   (length (producers (administrativeData d)) > 1 \<longrightarrow>
      (\<forall>i. issue ''Administrative'' (js ''Producer '' @ show_int (int i + 1) @ js '': Name is required.'')
         \<notin> set (errors (getValidationReport d))) \<and>
      errors (getValidationReport d) =
        errors (getValidationReport
          (d\<lparr>administrativeData := (administrativeData d)\<lparr>producers :=
               map (\<lambda>q. q\<lparr>prod_name := n q\<rparr>) (producers (administrativeData d))\<rparr>\<rparr>)))"
proof -
  have one: "show_int 1 = js ''1''"
    by code_simp
  have first: "(producers (administrativeData d) = [] \<longrightarrow>
      issue ''Administrative'' (js ''At least one Producer is required.'')
        \<in> set (errors (getValidationReport d))) \<and>
   (length (producers (administrativeData d)) > 1 \<longrightarrow>
      issue ''Administrative'' (js ''Only ONE Producer is allowed by schema.'')
        \<in> set (errors (getValidationReport d))) \<and>
   (producers (administrativeData d) = [p] \<and> \<not> truthy (prod_name p) \<longrightarrow>
      issue ''Administrative'' (js ''Producer 1: Name is required.'')
        \<in> set (errors (getValidationReport d)))"
    by (simp add: getValidationReport_def Let_def forEach_indexed_single producer_issues_def one)
  have none: "issue ''Administrative'' (js ''Producer '' @ show_int (int i + 1) @ js '': Name is required.'')
         \<notin> set (errors (getValidationReport d))"
    if "length (producers (administrativeData d)) > 1" for i
    using that
    by (simp add: getValidationReport_def Let_def issue_def material_issues_sect)
  have same: "errors (getValidationReport d) =
        errors (getValidationReport
          (d\<lparr>administrativeData := (administrativeData d)\<lparr>producers :=
               map (\<lambda>q. q\<lparr>prod_name := n q\<rparr>) (producers (administrativeData d))\<rparr>\<rparr>))"
    if "length (producers (administrativeData d)) > 1"
    using that by (simp add: getValidationReport_def Let_def)
  from first none same show ?thesis
    by blast
qed

theorem C7_producer_errors_witness:
  "issue ''Administrative'' (js ''At least one Producer is required.'')
     \<in> set (errors (getValidationReport
          ((INITIAL_DRMD [])\<lparr>administrativeData :=
              (administrativeData (INITIAL_DRMD []))\<lparr>producers := []\<rparr>\<rparr>))) \<and>
   issue ''Administrative'' (js ''Only ONE Producer is allowed by schema.'')
     \<in> set (errors (getValidationReport two_producers)) \<and>
   issue ''Administrative'' (js ''Producer 1: Name is required.'')
     \<in> set (errors (getValidationReport (INITIAL_DRMD []))) \<and>
   issue ''Administrative'' (js ''Producer 2: Name is required.'')
     \<notin> set (errors (getValidationReport two_producers)) \<and>
   errors (getValidationReport two_producers) =
     errors (getValidationReport
       (two_producers\<lparr>administrativeData := (administrativeData two_producers)\<lparr>producers :=
          [INITIAL_PRODUCER\<lparr>prod_name := Some (js ''PTB'')\<rparr>,
           INITIAL_PRODUCER\<lparr>prod_name := Some (js ''PTB'')\<rparr>]\<rparr>\<rparr>))"
proof -
  let ?e = "(INITIAL_DRMD [])\<lparr>administrativeData :=
              (administrativeData (INITIAL_DRMD []))\<lparr>producers := []\<rparr>\<rparr>"
  have none: "producers (administrativeData ?e) = []"
    by simp
  have a: "issue ''Administrative'' (js ''At least one Producer is required.'')
     \<in> set (errors (getValidationReport ?e))"
    using C7_producer_errors [of ?e] none by blast
  have len: "length (producers (administrativeData two_producers)) > 1"
    by (simp add: two_producers_def)
  have two: "js ''Producer '' @ show_int (int 1 + 1) @ js '': Name is required.'' =
      js ''Producer 2: Name is required.''"
    by code_simp
  have renamed: "map (\<lambda>q. q\<lparr>prod_name := Some (js ''PTB'')\<rparr>)
      (producers (administrativeData two_producers)) =
        [INITIAL_PRODUCER\<lparr>prod_name := Some (js ''PTB'')\<rparr>,
         INITIAL_PRODUCER\<lparr>prod_name := Some (js ''PTB'')\<rparr>]"
    by (simp add: two_producers_def)
  have b: "issue ''Administrative'' (js ''Only ONE Producer is allowed by schema.'')
      \<in> set (errors (getValidationReport two_producers))"
    and c: "issue ''Administrative''
        (js ''Producer '' @ show_int (int 1 + 1) @ js '': Name is required.'')
      \<notin> set (errors (getValidationReport two_producers))"
    and d: "errors (getValidationReport two_producers) =
      errors (getValidationReport
        (two_producers\<lparr>administrativeData := (administrativeData two_producers)\<lparr>producers :=
           map (\<lambda>q. q\<lparr>prod_name := Some (js ''PTB'')\<rparr>)
             (producers (administrativeData two_producers))\<rparr>\<rparr>))"
    using C7_producer_errors [of two_producers INITIAL_PRODUCER "\<lambda>q. Some (js ''PTB'')"] len
    by blast+
  have one: "producers (administrativeData (INITIAL_DRMD [])) = [INITIAL_PRODUCER]"
    "\<not> truthy (prod_name INITIAL_PRODUCER)"
    by (simp_all add: INITIAL_DRMD_def INITIAL_PRODUCER_def truthy_def)
  have e: "issue ''Administrative'' (js ''Producer 1: Name is required.'')
     \<in> set (errors (getValidationReport (INITIAL_DRMD [])))"
    using C7_producer_errors [of "INITIAL_DRMD []" INITIAL_PRODUCER] one by blast
  show ?thesis
    using a b c d e unfolding two renamed by blast
qed

text \<open>
  C7, as stated, asks for a name error for every producer without a name, however many
  producers there are. With two producers, the first without a name, the validator reports
  that only one producer is allowed and never looks at the names.
\<close>

theorem C7_counterexample:
  "length (producers (administrativeData two_producers)) = 2 \<and>
   \<not> truthy (prod_name (producers (administrativeData two_producers) ! 0)) \<and>
   map message (errors (getValidationReport two_producers)) =
     [js ''Unique Identifier is missing.'',
      js ''Only ONE Producer is allowed by schema.'',
      js ''At least one Material must be defined.'',
      js ''Intended Use is required.'',
      js ''Storage Information is required.'',
      js ''Instructions for Handling and Use are required.''] \<and>
   issue ''Administrative'' (js ''Producer 1: Name is required.'')
     \<notin> set (errors (getValidationReport two_producers))"
  by (simp add: two_producers_def INITIAL_DRMD_def INITIAL_PRODUCER_def truthy_def
      getValidationReport_def Let_def issue_def)

subsection \<open>The decoder\<close>






lemma one_quantity_xml_quantities:
  "map quantities (concat (map results (properties (decodeDocument [] (\<lambda>_. []) one_quantity_xml)))) =
     [[INITIAL_QUANTITY\<lparr>identifiers := [], q_value := js ''4.9'', q_unit := 92 # js ''gram'',
          q_dsiUnit := Some (92 # js ''gram''), q_dsiValue := js ''4.9''\<rparr>,
       INITIAL_QUANTITY\<lparr>identifiers := []\<rparr>]]"
  by code_simp





text \<open>
  Inside a block that is present, an absent element does not always give the default of the
  model: a \<open>coreData\<close> element without a title decodes to the empty title, where the initial
  document has "referenceMaterialCertificate".
\<close>

lemma decode_core_without_title:
  "title (administrativeData (decodeDocument [] (\<lambda>_. [])
      (Element (js ''drmd:digitalReferenceMaterialDocument'') []
         [Element (js ''drmd:administrativeData'') [] [Element (js ''drmd:coreData'') [] []]]))) = [] \<and>
   title (administrativeData (INITIAL_DRMD [])) = js ''referenceMaterialCertificate''"
  by code_simp




subsection \<open>The extraction merge\<close>

lemma key_certified_values:
  "normalizeName (Some (js ''Certified Values'')) = js ''certifiedvalues''"
  by code_simp

lemma fragment_in_mg_kg:
  assumes "xr_name r = Some (js ''in mg/kg'')"
  shows "isFragment r"
proof -
  have "str_includes (trim (toLowerCase (js ''in mg/kg''))) (js ''in mg/kg'')"
    by code_simp
  then show ?thesis
    using assms by (simp add: isFragment_def or_else_def Let_def)
qed

text \<open>The first property of a key seeds the entry with its one result.\<close>

lemma mergeProperty_seed:
  assumes "normalizeName (Some (or_else (xp_name p) (js ''Material Properties''))) = k"
    and "k \<noteq> js ''constructor''" and "xp_results p = Some [r]"
  shows "\<exists>e r'. mergeProperty [] p = Inr [(k, e)] \<and> xp_results e = Some [r'] \<and>
                 xr_quantities r' = xr_quantities r"
  using assms
  by (simp add: mergeProperty_def Let_def addResult_def list_or_empty_def)

text \<open>A later property of the same key with one fragment adds its quantities to that result.\<close>

lemma mergeProperty_fragment:
  assumes "normalizeName (Some (or_else (xp_name p) (js ''Material Properties''))) = k"
    and "k \<noteq> js ''constructor''" and "xp_results p = Some [r]"
    and "isFragment r" and "xr_quantities r = Some qs"
    and "xp_results e = Some [r1]"
  shows "\<exists>e' r'. mergeProperty [(k, e)] p = Inr [(k, e')] \<and> xp_results e' = Some [r'] \<and>
                  xr_quantities r' = Some (list_or_empty (xr_quantities r1) @ qs)"
proof -
  have frag: "isFragment (r\<lparr>xr_description := dsc\<rparr>)" for dsc
    using assms(4) by (simp add: isFragment_def)
  show ?thesis
    using assms frag
    by (simp add: mergeProperty_def Let_def addResult_def list_or_empty_def)
qed

lemma Object_values_single:
  assumes "\<not> is_array_index k"
  shows "Object_values [(k, e)] = [e]"
  using assms by (simp add: Object_values_def)


text \<open>
  C5. Given a payload whose properties are "Certified Values" with the one result "in %" of
  two quantities, followed by a property with the same normalized key whose one result
  "in mg/kg" has three quantities, the merge produces exactly one property with exactly one
  result, and its five quantities are those of the two results in their original order.
\<close>

theorem C5_fragment_merge:
  assumes "xd_properties x = Some [p1, p2]"
    and "xp_name p1 = Some (js ''Certified Values'')"
    and "xp_results p1 = Some [r1]"
    and "xr_name r1 = Some (js ''in %'')"
    and "xr_quantities r1 = Some qs1" and "length qs1 = 2"
    and "normalizeName (Some (or_else (xp_name p2) (js ''Material Properties''))) =
           normalizeName (xp_name p1)"
    and "xp_results p2 = Some [r2]"
    and "xr_name r2 = Some (js ''in mg/kg'')"
    and "xr_quantities r2 = Some qs2" and "length qs2 = 3"
  shows "\<exists>d P R. mergeExtraction today uuid prev x = Inr d \<and>
           properties d = [P] \<and> results P = [R] \<and> length (quantities R) = 5 \<and>
           quantities R =
             map (\<lambda>(k, q). newQuantity uuid [5, 0, 0, k] q) (enumerate 0 (qs1 @ qs2))"
proof -
  let ?k = "js ''certifiedvalues''"
  have k1: "normalizeName (Some (or_else (xp_name p1) (js ''Material Properties''))) = ?k"
    using assms(2) key_certified_values by (simp add: or_else_def)
  have k2: "normalizeName (Some (or_else (xp_name p2) (js ''Material Properties''))) = ?k"
    using assms(7) assms(2) key_certified_values by simp
  have nc: "?k \<noteq> js ''constructor''"
    by simp
  from mergeProperty_seed [OF k1 nc assms(3)]
  obtain e r1' where s1: "mergeProperty [] p1 = Inr [(?k, e)]"
    and e: "xp_results e = Some [r1']" and q1: "xr_quantities r1' = xr_quantities r1"
    by blast
  from mergeProperty_fragment [OF k2 nc assms(8) fragment_in_mg_kg [OF assms(9)] assms(10) e]
  obtain e' r' where s2: "mergeProperty [(?k, e)] p2 = Inr [(?k, e')]"
    and e': "xp_results e' = Some [r']"
    and q': "xr_quantities r' = Some (list_or_empty (xr_quantities r1') @ qs2)"
    by blast
  have qs: "xr_quantities r' = Some (qs1 @ qs2)"
    using q' q1 assms(5) by (simp add: list_or_empty_def)
  have m: "mergeProperties [] [p1, p2] = Inr [(?k, e')]"
    using s1 s2 by simp
  have np: "newProps uuid (xd_properties x) = Inr [newProp uuid 0 e']"
    using m assms(1)
    by (simp add: newProps_def list_or_empty_def Object_values_single is_array_index_def
        is_digit_def)
  have res: "results (newProp uuid 0 e') = [newResult uuid 0 0 r']"
    using e' by (simp add: newProp_def list_or_empty_def)
  have quants: "quantities (newResult uuid 0 0 r') =
      map (\<lambda>(k, q). newQuantity uuid [5, 0, 0, k] q) (enumerate 0 (qs1 @ qs2))"
    using qs by (simp add: newResult_def list_or_empty_def)
  have "\<exists>d. mergeExtraction today uuid prev x = Inr d \<and> properties d = [newProp uuid 0 e']"
    using np by (simp add: mergeExtraction_def Let_def)
  then show ?thesis
    using res quants assms(6) assms(11) by auto
qed


theorem C5_fragment_merge_witness:
  "\<exists>d P R. mergeExtraction [] (\<lambda>_. []) (INITIAL_DRMD []) split_table_payload = Inr d \<and>
     properties d = [P] \<and> results P = [R] \<and> length (quantities R) = 5 \<and>
     map q_name (quantities R) =
       [Some (js ''Cr''), Some (js ''Ni''), Some (js ''Pb''), Some (js ''Cd''), Some (js ''Hg'')]"
proof -
  let ?qs1 = "[xquantity ''Cr'' ''18.2'' ''%'', xquantity ''Ni'' ''8.1'' ''%'']"
  let ?qs2 = "[xquantity ''Pb'' ''12'' ''mg/kg'', xquantity ''Cd'' ''<0.05'' ''mg/kg'',
               xquantity ''Hg'' ''0.3'' ''mg/kg'']"
  have key: "normalizeName (Some (or_else (Some (js ''Certified values'')) (js ''Material Properties''))) =
      normalizeName (Some (js ''Certified Values''))"
    by code_simp
  have names: "map q_name (map (\<lambda>(k, q). newQuantity (\<lambda>_. []) [5, 0, 0, k] q)
      (enumerate 0 (?qs1 @ ?qs2))) =
       [Some (js ''Cr''), Some (js ''Ni''), Some (js ''Pb''), Some (js ''Cd''), Some (js ''Hg'')]"
    by (simp add: newQuantity_def xquantity_def Let_def)
  from C5_fragment_merge
    [of split_table_payload "xproperty ''Certified Values'' ''in %'' ?qs1"
        "xproperty ''Certified values'' ''in mg/kg'' ?qs2"
        "\<lparr>xr_name = Some (js ''in %''), xr_description = None,
          xr_sectionCoordinates = None, xr_quantities = Some ?qs1\<rparr>"
        ?qs1
        "\<lparr>xr_name = Some (js ''in mg/kg''), xr_description = None,
          xr_sectionCoordinates = None, xr_quantities = Some ?qs2\<rparr>"
        ?qs2 "[]" "\<lambda>_. []" "INITIAL_DRMD []"]
  obtain d P R where
    "mergeExtraction [] (\<lambda>_. []) (INITIAL_DRMD []) split_table_payload = Inr d"
    "properties d = [P]" "results P = [R]" "length (quantities R) = 5"
    "quantities R = map (\<lambda>(k, q). newQuantity (\<lambda>_. []) [5, 0, 0, k] q) (enumerate 0 (?qs1 @ ?qs2))"
    using key by (auto simp: split_table_payload_def xproperty_def)
  then show ?thesis
    using names by auto
qed



end
